theory Spec2Isabelle
  imports Main
begin

section \<open>JavaScript values used by the search code\<close>

text \<open>
  A string is the list of the bytes of its UTF-8 form: equality, concatenation, the
  test for the empty string and an ASCII prefix read the same on these bytes as on the
  code units of the source's strings. A property that may be missing from an object
  (\<^verbatim>\<open>x?: T\<close>) is an \<open>option\<close>: \<open>None\<close> is \<^verbatim>\<open>undefined\<close>.
  \<^verbatim>\<open>limit?: number | null\<close> has three shapes, kept apart by \<open>nullable\<close>.
\<close>

datatype 'a nullable = Undefined | Null | Val 'a

text \<open>\<^verbatim>\<open>!!b\<close> for an optional boolean: \<^verbatim>\<open>undefined\<close> is falsy.\<close>

definition truthy_bool :: "bool option \<Rightarrow> bool" where
  "truthy_bool b = (case b of None \<Rightarrow> False | Some v \<Rightarrow> v)"

text \<open>Truthiness of an optional string: \<^verbatim>\<open>undefined\<close>, \<^verbatim>\<open>null\<close> and \<^verbatim>\<open>""\<close> are falsy.\<close>

definition truthy_str :: "string option \<Rightarrow> bool" where
  "truthy_str s = (case s of None \<Rightarrow> False | Some v \<Rightarrow> v \<noteq> [])"

section \<open>SearchContext (search\_context.ts)\<close>

text \<open>
  The constructor's argument. Only the properties the constructor reads are fields
  (prefixed \<open>p_\<close> to keep them apart from the fields of the context); the
  declaration of \<^verbatim>\<open>SearchParams\<close> is in \<^verbatim>\<open>services/types.js\<close>. Any other property an
  argument object carries lives in the record's extension, which the constructor
  never reads.
\<close>

record SearchParams =
  p_fastSearch :: "bool option"
  p_includeArchivedNotes :: "bool option"
  p_includeHiddenNotes :: "bool option"
  p_ignoreHoistedNote :: "bool option"
  p_ignoreInternalAttributes :: "bool option"
  p_ancestorNoteId :: "string option"
  p_ancestorDepth :: "string option"
  p_orderBy :: "string option"
  p_orderDirection :: "string option"
  p_limit :: "int nullable"
  p_debug :: "bool option"
  p_fuzzyAttributeSearch :: "bool option"

text \<open>An argument object that also carries an \<^verbatim>\<open>enableFuzzyMatching\<close> property.\<close>

record SearchParamsFuzzy = SearchParams +
  p_enableFuzzyMatching :: "bool option"

text \<open>The default argument \<^verbatim>\<open>{}\<close>.\<close>

definition emptyParams :: SearchParams where
  "emptyParams = \<lparr> p_fastSearch = None, p_includeArchivedNotes = None,
     p_includeHiddenNotes = None, p_ignoreHoistedNote = None,
     p_ignoreInternalAttributes = None, p_ancestorNoteId = None,
     p_ancestorDepth = None, p_orderBy = None, p_orderDirection = None,
     p_limit = Undefined, p_debug = None, p_fuzzyAttributeSearch = None \<rparr>"

record SearchContext =
  fastSearch :: bool
  includeArchivedNotes :: bool
  includeHiddenNotes :: bool
  ignoreHoistedNote :: bool
  ignoreInternalAttributes :: bool
  ancestorNoteId :: "string option"
  ancestorDepth :: "string option"
  orderBy :: "string option"
  orderDirection :: "string option"
  limit :: "int nullable"
  debug :: "bool option"
  debugInfo :: "unit option"
  fuzzyAttributeSearch :: bool
  enableFuzzyMatching :: bool
  highlightedTokens :: "string list"
  originalQuery :: string
  fulltextQuery :: string
  dbLoadNeeded :: bool
  error :: "string option"

text \<open>
  The constructor body. \<open>hoisted\<close> is what \<^verbatim>\<open>hoistedNoteService.getHoistedNoteId()\<close>
  returns (the service is outside this file).
\<close>

definition SearchContext_new :: "string \<Rightarrow> 'a SearchParams_scheme \<Rightarrow> SearchContext" where
  "SearchContext_new hoisted params =
    (let ignoreHoisted = truthy_bool (p_ignoreHoistedNote params);
         ancestor = p_ancestorNoteId params
     in \<lparr> fastSearch = truthy_bool (p_fastSearch params),
          includeArchivedNotes = truthy_bool (p_includeArchivedNotes params),
          includeHiddenNotes = truthy_bool (p_includeHiddenNotes params),
          ignoreHoistedNote = ignoreHoisted,
          ignoreInternalAttributes = truthy_bool (p_ignoreInternalAttributes params),
          ancestorNoteId =
            (if \<not> truthy_str ancestor \<and> \<not> ignoreHoisted then Some hoisted else ancestor),
          ancestorDepth = p_ancestorDepth params,
          orderBy = p_orderBy params,
          orderDirection = p_orderDirection params,
          limit = p_limit params,
          debug = p_debug params,
          debugInfo = None,
          fuzzyAttributeSearch = truthy_bool (p_fuzzyAttributeSearch params),
          enableFuzzyMatching = True,
          highlightedTokens = [],
          originalQuery = [],
          fulltextQuery = [],
          dbLoadNeeded = False,
          error = None \<rparr>)"

text \<open>\<^verbatim>\<open>new SearchContext()\<close>: the parameter defaults to \<^verbatim>\<open>{}\<close>.\<close>

definition SearchContext_default :: "string \<Rightarrow> SearchContext" where
  "SearchContext_default hoisted = SearchContext_new hoisted emptyParams"

definition addError :: "string \<Rightarrow> SearchContext \<Rightarrow> SearchContext" where
  "addError e ctx = (if \<not> truthy_str (error ctx) then ctx\<lparr> error := Some e \<rparr> else ctx)"

definition hasError :: "SearchContext \<Rightarrow> bool" where
  "hasError ctx = truthy_str (error ctx)"

definition getError :: "SearchContext \<Rightarrow> string option" where
  "getError ctx = error ctx"

text \<open>A run of \<^verbatim>\<open>addError\<close> calls, in order.\<close>

fun addErrors :: "string list \<Rightarrow> SearchContext \<Rightarrow> SearchContext" where
  "addErrors [] ctx = ctx"
| "addErrors (m # ms) ctx = addErrors ms (addError m ctx)"

section \<open>The share router (share/routes.ts)\<close>

subsection \<open>The share cache, requests and responses\<close>

text \<open>
  What the routes read of a shared note. \<open>shareId\<close> and \<open>getCredentials\<close> stand
  for the getter and the method of \<^verbatim>\<open>SNote\<close> (declared in \<^verbatim>\<open>shaca/entities/snote.js\<close>):
  \<open>getCredentials\<close> holds the \<^verbatim>\<open>value\<close> of each credential label, in order.
\<close>

record SNote =
  noteId :: string
  title :: string
  shareId :: string
  getCredentials :: "string list"

text \<open>
  The share cache after \<^verbatim>\<open>shacaLoader.ensureLoad()\<close>. \<open>shaca_notes\<close> is the table
  \<^verbatim>\<open>shaca.notes\<close>; \<open>getNote\<close> is the method \<^verbatim>\<open>shaca.getNote\<close>, whose body is in
  \<^verbatim>\<open>shaca/shaca.js\<close>, so it is a component of its own here.
\<close>

record Shaca =
  shaca_notes :: "string \<rightharpoonup> SNote"
  getNote :: "string \<rightharpoonup> SNote"
  shareIndexEnabled :: bool

text \<open>
  A value of \<^verbatim>\<open>req.query\<close>: missing, a string, or an array or nested object
  (which \<^verbatim>\<open>typeof\<close> does not report as a string).
\<close>

datatype qval = QUndefined | QString string | QOther

record Request =
  authorization :: "string option"
  query_ancestorNoteId :: qval
  query_search :: qval

text \<open>One result of \<^verbatim>\<open>findResultsWithQuery\<close>; the type of the score plays no role.\<close>

record 's SearchResult =
  sr_noteId :: string
  sr_notePathArray :: "string list"
  sr_score :: 's

text \<open>One entry \<^verbatim>\<open>{ id, title, score, path }\<close> of the response.\<close>

record 's ShareResult =
  r_id :: string
  r_title :: string
  r_score :: 's
  r_path :: string

datatype 's body =
    JsonMessage string
  | JsonResults "'s ShareResult list"
  | StatusText nat

text \<open>
  The response object: the status code (200 until set), the headers the code sets by
  name, and the body once one has been sent.
\<close>

record 's Response =
  statusCode :: nat
  headers :: "string \<rightharpoonup> string"
  sent :: "'s body option"

definition newResponse :: "'s Response" where
  "newResponse = \<lparr> statusCode = 200, headers = Map.empty, sent = None \<rparr>"

definition status :: "nat \<Rightarrow> 's Response \<Rightarrow> 's Response" where
  "status c res = res\<lparr> statusCode := c \<rparr>"

definition json :: "'s body \<Rightarrow> 's Response \<Rightarrow> 's Response" where
  "json b res = res\<lparr> sent := Some b \<rparr>"

definition setHeader :: "string \<Rightarrow> string \<Rightarrow> 's Response \<Rightarrow> 's Response" where
  "setHeader name v res = res\<lparr> headers := (headers res)(name \<mapsto> v) \<rparr>"

definition sendStatus :: "nat \<Rightarrow> 's Response \<Rightarrow> 's Response" where
  "sendStatus c res = res\<lparr> statusCode := c, sent := Some (StatusText c) \<rparr>"

text \<open>Reading a property of \<^verbatim>\<open>undefined\<close> throws.\<close>

datatype js_error = TypeError

subsection \<open>String and array primitives\<close>

definition startsWith :: "string \<Rightarrow> string \<Rightarrow> bool" where
  "startsWith s p = (take (length p) s = p)"

definition substring :: "string \<Rightarrow> nat \<Rightarrow> string" where
  "substring s n = drop n s"

text \<open>
  The code points that \<^verbatim>\<open>String.prototype.trim\<close> removes (white space and line
  terminators: U+0009 to U+000D, U+0020, U+00A0, U+1680, U+2000 to U+200A, U+2028,
  U+2029, U+202F, U+205F, U+3000, U+FEFF), each in its UTF-8 form.
\<close>

definition whiteSpace :: "string list" where
  "whiteSpace =
    [[CHR 0x09], [CHR 0x0A], [CHR 0x0B], [CHR 0x0C], [CHR 0x0D], [CHR 0x20],
     [CHR 0xC2, CHR 0xA0],
     [CHR 0xE1, CHR 0x9A, CHR 0x80],
     [CHR 0xE2, CHR 0x80, CHR 0x80], [CHR 0xE2, CHR 0x80, CHR 0x81],
     [CHR 0xE2, CHR 0x80, CHR 0x82], [CHR 0xE2, CHR 0x80, CHR 0x83],
     [CHR 0xE2, CHR 0x80, CHR 0x84], [CHR 0xE2, CHR 0x80, CHR 0x85],
     [CHR 0xE2, CHR 0x80, CHR 0x86], [CHR 0xE2, CHR 0x80, CHR 0x87],
     [CHR 0xE2, CHR 0x80, CHR 0x88], [CHR 0xE2, CHR 0x80, CHR 0x89],
     [CHR 0xE2, CHR 0x80, CHR 0x8A],
     [CHR 0xE2, CHR 0x80, CHR 0xA8], [CHR 0xE2, CHR 0x80, CHR 0xA9],
     [CHR 0xE2, CHR 0x80, CHR 0xAF],
     [CHR 0xE2, CHR 0x81, CHR 0x9F],
     [CHR 0xE3, CHR 0x80, CHR 0x80],
     [CHR 0xEF, CHR 0xBB, CHR 0xBF]]"

text \<open>A white space code point of one, two and three bytes.\<close>

definition isSpace1 :: "char \<Rightarrow> bool" where
  "isSpace1 a = ([a] \<in> set whiteSpace)"

definition isSpace2 :: "char \<Rightarrow> char \<Rightarrow> bool" where
  "isSpace2 a b = ([a, b] \<in> set whiteSpace)"

definition isSpace3 :: "char \<Rightarrow> char \<Rightarrow> char \<Rightarrow> bool" where
  "isSpace3 a b c = ([a, b, c] \<in> set whiteSpace)"

text \<open>
  Removing the leading run of code points recognised by \<open>p1\<close>, \<open>p2\<close>, \<open>p3\<close> (of one,
  two and three bytes).
\<close>

fun strip :: "(char \<Rightarrow> bool) \<Rightarrow> (char \<Rightarrow> char \<Rightarrow> bool) \<Rightarrow> (char \<Rightarrow> char \<Rightarrow> char \<Rightarrow> bool)
    \<Rightarrow> string \<Rightarrow> string" where
  "strip p1 p2 p3 (a # b # c # s) =
    (if p1 a then strip p1 p2 p3 (b # c # s)
     else if p2 a b then strip p1 p2 p3 (c # s)
     else if p3 a b c then strip p1 p2 p3 s
     else a # b # c # s)"
| "strip p1 p2 p3 [a, b] =
    (if p1 a then strip p1 p2 p3 [b] else if p2 a b then [] else [a, b])"
| "strip p1 p2 p3 [a] = (if p1 a then [] else [a])"
| "strip p1 p2 p3 [] = []"

text \<open>
  \<^verbatim>\<open>trim\<close> removes the white space at both ends; at the end the bytes are read
  backwards.
\<close>

definition trimStart :: "string \<Rightarrow> string" where
  "trimStart s = strip isSpace1 isSpace2 isSpace3 s"

definition trimEnd :: "string \<Rightarrow> string" where
  "trimEnd s = rev (strip isSpace1 (\<lambda>a b. isSpace2 b a) (\<lambda>a b c. isSpace3 c b a) (rev s))"

definition trim :: "string \<Rightarrow> string" where
  "trim s = trimEnd (trimStart s)"

text \<open>A string that consists of white space only: a run of such code points.\<close>

definition whiteSpaceOnly :: "string \<Rightarrow> bool" where
  "whiteSpaceOnly s = (\<exists>ws. list_all (\<lambda>w. w \<in> set whiteSpace) ws \<and> s = concat ws)"

text \<open>One code point recognised by \<open>p1\<close>, \<open>p2\<close> or \<open>p3\<close>.\<close>

definition tok :: "(char \<Rightarrow> bool) \<Rightarrow> (char \<Rightarrow> char \<Rightarrow> bool) \<Rightarrow> (char \<Rightarrow> char \<Rightarrow> char \<Rightarrow> bool)
    \<Rightarrow> string \<Rightarrow> bool" where
  "tok p1 p2 p3 t = ((\<exists>a. t = [a] \<and> p1 a) \<or> (\<exists>a b. t = [a, b] \<and> p2 a b)
     \<or> (\<exists>a b c. t = [a, b, c] \<and> p3 a b c))"

text \<open>\<^verbatim>\<open>Array.prototype.indexOf\<close>: the first position, or \<open>-1\<close>.\<close>

fun indexOf :: "'a list \<Rightarrow> 'a \<Rightarrow> int" where
  "indexOf [] a = - 1"
| "indexOf (x # xs) a =
    (if x = a then 0 else (let i = indexOf xs a in if i < 0 then - 1 else i + 1))"

text \<open>\<^verbatim>\<open>Array.prototype.slice(start)\<close>: a negative start counts from the end.\<close>

definition slice :: "'a list \<Rightarrow> int \<Rightarrow> 'a list" where
  "slice xs start =
    (if start < 0 then drop (nat (max 0 (int (length xs) + start))) xs
     else drop (nat start) xs)"

fun join :: "string \<Rightarrow> string list \<Rightarrow> string" where
  "join sep [] = []"
| "join sep [x] = x"
| "join sep (x # y # ys) = x @ sep @ join sep (y # ys)"

text \<open>\<^verbatim>\<open>Array.prototype.map\<close> with a callback that may throw: the first throw ends it.\<close>

fun mapE :: "('a \<Rightarrow> js_error + 'b) \<Rightarrow> 'a list \<Rightarrow> js_error + 'b list" where
  "mapE f [] = Inr []"
| "mapE f (x # xs) =
    (case f x of
       Inl e \<Rightarrow> Inl e
     | Inr y \<Rightarrow> (case mapE f xs of Inl e \<Rightarrow> Inl e | Inr ys \<Rightarrow> Inr (y # ys)))"

text \<open>
  \<^verbatim>\<open>safeCompare\<close> of the package \<^verbatim>\<open>safe-compare\<close>: string equality, computed in
  constant time.
\<close>

definition safeCompare :: "string \<Rightarrow> string \<Rightarrow> bool" where
  "safeCompare a b = (a = b)"

subsection \<open>Access checks\<close>

definition requestCredentials :: "'s Response \<Rightarrow> 's Response" where
  "requestCredentials res =
    sendStatus 401
      (setHeader ''WWW-Authenticate''
         (''Basic realm='' @ [CHR 0x22] @ ''User Visible Realm'' @ [CHR 0x22]
            @ '', charset='' @ [CHR 0x22] @ ''UTF-8'' @ [CHR 0x22]) res)"

text \<open>The loop over the credential labels: the first match grants access.\<close>

fun matchCredentials :: "string \<Rightarrow> string list \<Rightarrow> bool" where
  "matchCredentials authString [] = False"
| "matchCredentials authString (credentialLabel # rest) =
    (if safeCompare authString credentialLabel then True
     else matchCredentials authString rest)"

text \<open>
  \<^verbatim>\<open>checkNoteAccess\<close> of the per-route router. It returns the note (\<open>Some\<close>) or
  \<^verbatim>\<open>false\<close> (\<open>None\<close>), with the response as it leaves it. \<open>b64\<close> is the runtime's
  \<^verbatim>\<open>Buffer.from(_, "base64").toString("utf-8")\<close>. The parameter \<^verbatim>\<open>noteId\<close> is written
  \<open>nId\<close>, \<open>noteId\<close> being the field of \<open>SNote\<close>.
\<close>

definition checkNoteAccess ::
  "(string \<Rightarrow> string) \<Rightarrow> Shaca \<Rightarrow> string \<Rightarrow> Request \<Rightarrow> 's Response
     \<Rightarrow> SNote option \<times> 's Response" where
  "checkNoteAccess b64 sh nId req res =
    (case getNote sh nId of
       None \<Rightarrow>
         (None, json (JsonMessage (''Note '' @ [CHR 0x27] @ nId @ [CHR 0x27] @ '' not found.''))
                  (status 404 res))
     | Some note \<Rightarrow>
         if nId = ''_share'' \<and> \<not> shareIndexEnabled sh then
           (None, json (JsonMessage ''Accessing share index is forbidden.'') (status 403 res))
         else
           (let credentials = getCredentials note in
            if length credentials = 0 then (Some note, res)
            else
              (case authorization req of
                 None \<Rightarrow> (None, res)
               | Some header \<Rightarrow>
                   if \<not> startsWith header ''Basic '' then (None, res)
                   else
                     (let base64Str = substring header (length ''Basic '');
                          authString = b64 base64Str
                      in if matchCredentials authString credentials then (Some note, res)
                         else (None, res)))))"

text \<open>\<^verbatim>\<open>checkNoteAccess\<close> of the router that dispatches in one middleware.\<close>

definition checkNoteAccess_mw ::
  "(string \<Rightarrow> string) \<Rightarrow> Shaca \<Rightarrow> string \<Rightarrow> Request \<Rightarrow> 's Response
     \<Rightarrow> SNote option \<times> 's Response" where
  "checkNoteAccess_mw b64 sh nId req res =
    (case getNote sh nId of
       None \<Rightarrow>
         (None, json (JsonMessage (''Note '' @ [CHR 0x27] @ nId @ [CHR 0x27] @ '' not found.''))
                  (status 404 res))
     | Some note \<Rightarrow>
         if nId = ''_share'' \<and> \<not> shareIndexEnabled sh then
           (None, json (JsonMessage ''Accessing share index is forbidden.'') (status 403 res))
         else
           (let credentials = getCredentials note in
            if length credentials = 0 then (Some note, res)
            else
              (case authorization req of
                 None \<Rightarrow> (None, res)
               | Some header \<Rightarrow>
                   if \<not> startsWith header ''Basic '' then (None, res)
                   else
                     (let base64Str = substring header (length ''Basic '');
                          authString = b64 base64Str
                      in if matchCredentials authString credentials then (Some note, res)
                         else (None, res)))))"

subsection \<open>The search handler\<close>

text \<open>
  The callback of \<^verbatim>\<open>searchResults.map\<close>. The source looks \<^verbatim>\<open>fullNote\<close> up first and reads
  its properties last, after the path has been built; reading a property of a missing
  note throws.
\<close>

definition mapResult :: "Shaca \<Rightarrow> string \<Rightarrow> 's SearchResult \<Rightarrow> js_error + 's ShareResult" where
  "mapResult sh ancestor sr =
    (let fullNote = shaca_notes sh (sr_noteId sr);
         startIndex = indexOf (sr_notePathArray sr) ancestor;
         localPathArray =
           filter (\<lambda>i. shaca_notes sh i \<noteq> None) (slice (sr_notePathArray sr) (startIndex + 1))
     in case mapE (\<lambda>i. case shaca_notes sh i of
                          None \<Rightarrow> Inl TypeError
                        | Some n \<Rightarrow> Inr (title n)) localPathArray of
          Inl e \<Rightarrow> Inl e
        | Inr titles \<Rightarrow>
            (let pathTitle = join '' / '' titles
             in case fullNote of
                  None \<Rightarrow> Inl TypeError
                | Some n \<Rightarrow>
                    Inr \<lparr> r_id = shareId n, r_title = title n, r_score = sr_score sr,
                          r_path = pathTitle \<rparr>))"

text \<open>
  What a handler leaves behind: the response, and the calls it made to the search
  service (query and context), in order.
\<close>

record 's Outcome =
  out_res :: "'s Response"
  out_searches :: "(string \<times> SearchContext) list"

text \<open>
  The handler of \<^verbatim>\<open>GET /share/api/notes\<close>. \<open>findResultsWithQuery\<close> is the search
  service's function (\<^verbatim>\<open>services/search/services/search.js\<close>), \<open>hoisted\<close> the
  hoisted note id the context's constructor asks for. A throw is \<open>Inl\<close>.
\<close>

definition shareSearch ::
  "(string \<Rightarrow> string) \<Rightarrow> string \<Rightarrow> (string \<Rightarrow> SearchContext \<Rightarrow> 's SearchResult list)
     \<Rightarrow> Shaca \<Rightarrow> Request \<Rightarrow> 's Response \<Rightarrow> js_error + 's Outcome" where
  "shareSearch b64 hoisted findResultsWithQuery sh req res =
    (case (case query_ancestorNoteId req of QUndefined \<Rightarrow> QString ''_share'' | v \<Rightarrow> v) of
       QString ancestor \<Rightarrow>
         (case checkNoteAccess b64 sh ancestor req res of
            (None, res1) \<Rightarrow> Inr \<lparr> out_res = res1, out_searches = [] \<rparr>
          | (Some note, res1) \<Rightarrow>
              (case query_search req of
                 QString search \<Rightarrow>
                   if trim search = [] then
                     Inr \<lparr> out_res = json (JsonMessage
                                  ([CHR 0x27] @ ''search'' @ [CHR 0x27] @ '' parameter is mandatory.''))
                                  (status 400 res1),
                           out_searches = [] \<rparr>
                   else
                     (let searchContext =
                            SearchContext_new hoisted (emptyParams\<lparr> p_ancestorNoteId := Some ancestor \<rparr>);
                          searchResults = findResultsWithQuery search searchContext
                      in case mapE (mapResult sh ancestor) searchResults of
                           Inl e \<Rightarrow> Inl e
                         | Inr filteredResults \<Rightarrow>
                             Inr \<lparr> out_res = json (JsonResults filteredResults) res1,
                                   out_searches = [(search, searchContext)] \<rparr>)
               | _ \<Rightarrow>
                   Inr \<lparr> out_res = json (JsonMessage
                                ([CHR 0x27] @ ''search'' @ [CHR 0x27] @ '' parameter is mandatory.''))
                                (status 400 res1),
                         out_searches = [] \<rparr>))
     | _ \<Rightarrow>
         Inr \<lparr> out_res = json (JsonMessage
                      ([CHR 0x27] @ ''ancestorNoteId'' @ [CHR 0x27] @ '' parameter is mandatory.''))
                      (status 400 res),
               out_searches = [] \<rparr>)"

text \<open>
  The same request in the middleware router: the branch taken when the path below the
  share path is \<^verbatim>\<open>/api/notes\<close>.
\<close>

definition shareSearch_mw ::
  "(string \<Rightarrow> string) \<Rightarrow> string \<Rightarrow> (string \<Rightarrow> SearchContext \<Rightarrow> 's SearchResult list)
     \<Rightarrow> Shaca \<Rightarrow> Request \<Rightarrow> 's Response \<Rightarrow> js_error + 's Outcome" where
  "shareSearch_mw b64 hoisted findResultsWithQuery sh req res =
    (case (case query_ancestorNoteId req of QUndefined \<Rightarrow> QString ''_share'' | v \<Rightarrow> v) of
       QString ancestor \<Rightarrow>
         (case checkNoteAccess_mw b64 sh ancestor req res of
            (None, res1) \<Rightarrow> Inr \<lparr> out_res = res1, out_searches = [] \<rparr>
          | (Some note, res1) \<Rightarrow>
              (case query_search req of
                 QString search \<Rightarrow>
                   if trim search = [] then
                     Inr \<lparr> out_res = json (JsonMessage
                                  ([CHR 0x27] @ ''search'' @ [CHR 0x27] @ '' parameter is mandatory.''))
                                  (status 400 res1),
                           out_searches = [] \<rparr>
                   else
                     (let searchContext =
                            SearchContext_new hoisted (emptyParams\<lparr> p_ancestorNoteId := Some ancestor \<rparr>);
                          searchResults = findResultsWithQuery search searchContext
                      in case mapE (mapResult sh ancestor) searchResults of
                           Inl e \<Rightarrow> Inl e
                         | Inr filteredResults \<Rightarrow>
                             Inr \<lparr> out_res = json (JsonResults filteredResults) res1,
                                   out_searches = [(search, searchContext)] \<rparr>)
               | _ \<Rightarrow>
                   Inr \<lparr> out_res = json (JsonMessage
                                ([CHR 0x27] @ ''search'' @ [CHR 0x27] @ '' parameter is mandatory.''))
                                (status 400 res1),
                         out_searches = [] \<rparr>))
     | _ \<Rightarrow>
         Inr \<lparr> out_res = json (JsonMessage
                      ([CHR 0x27] @ ''ancestorNoteId'' @ [CHR 0x27] @ '' parameter is mandatory.''))
                      (status 400 res),
               out_searches = [] \<rparr>)"

subsection \<open>The handler's conditions, named\<close>

text \<open>
  The ancestor a request names, as the handlers resolve it: the query parameter when it
  is a string, \<^verbatim>\<open>"_share"\<close> when it is missing, none when it is not a string.
\<close>

definition ancestorOf :: "Request \<Rightarrow> string option" where
  "ancestorOf req =
    (case query_ancestorNoteId req of
       QUndefined \<Rightarrow> Some ''_share''
     | QString a \<Rightarrow> Some a
     | QOther \<Rightarrow> None)"

text \<open>
  The test \<^verbatim>\<open>typeof search !== "string" || !search?.trim()\<close> on the request's
  \<^verbatim>\<open>search\<close> parameter.
\<close>

definition searchMissing :: "Request \<Rightarrow> bool" where
  "searchMissing req = (case query_search req of QString s \<Rightarrow> trim s = [] | _ \<Rightarrow> True)"

text \<open>
  Whether a request carries what a note asks for: the note has no credential label, or
  the header is a Basic one whose decoded rest is the value of one of the labels.
\<close>

definition granted :: "(string \<Rightarrow> string) \<Rightarrow> SNote \<Rightarrow> Request \<Rightarrow> bool" where
  "granted b64 note req =
     (getCredentials note = []
      \<or> (case authorization req of
            None \<Rightarrow> False
          | Some header \<Rightarrow>
              startsWith header ''Basic ''
              \<and> b64 (substring header (length ''Basic '')) \<in> set (getCredentials note)))"

subsection \<open>The breadcrumb as the specification words it\<close>

text \<open>
  The specification's reading of the path of a result: the ids of the note path lying
  strictly after the position of the ancestor, those present in the share cache only,
  their titles joined with \<^verbatim>\<open>" / "\<close>. The ids after the ancestor are defined only for a
  path on which the ancestor has a position (its first one).
\<close>

definition spec_pathAfterAncestor :: "string \<Rightarrow> string list \<Rightarrow> string list option" where
  "spec_pathAfterAncestor ancestor path =
    (if ancestor \<in> set path then Some (tl (dropWhile (\<lambda>i. i \<noteq> ancestor) path)) else None)"

text \<open>The titles of the ids that the share cache holds, in order.\<close>

definition cachedTitles :: "Shaca \<Rightarrow> string list \<Rightarrow> string list" where
  "cachedTitles sh ids = List.map_filter (\<lambda>i. map_option title (shaca_notes sh i)) ids"

definition spec_resultPath :: "Shaca \<Rightarrow> string list \<Rightarrow> string" where
  "spec_resultPath sh after = join '' / '' (cachedTitles sh after)"

section \<open>Sample data\<close>

text \<open>
  A small share cache: the share index, two shared notes without credentials, and one
  note below them that asks for the credentials \<^verbatim>\<open>alice:pw\<close>.
\<close>

definition fuzzyOffParams :: SearchParamsFuzzy where
  "fuzzyOffParams = \<lparr> p_fastSearch = None, p_includeArchivedNotes = None,
     p_includeHiddenNotes = None, p_ignoreHoistedNote = None,
     p_ignoreInternalAttributes = None, p_ancestorNoteId = None,
     p_ancestorDepth = None, p_orderBy = None, p_orderDirection = None,
     p_limit = Undefined, p_debug = None, p_fuzzyAttributeSearch = None,
     p_enableFuzzyMatching = Some False \<rparr>"

definition ex_index :: SNote where
  "ex_index = \<lparr> noteId = ''_share'', title = ''Shared Notes'', shareId = ''_share'',
     getCredentials = [] \<rparr>"

definition ex_docs :: SNote where
  "ex_docs = \<lparr> noteId = ''docs1'', title = ''Docs'', shareId = ''docs'', getCredentials = [] \<rparr>"

definition ex_other :: SNote where
  "ex_other = \<lparr> noteId = ''other1'', title = ''Drafts'', shareId = ''other1'',
     getCredentials = [] \<rparr>"

definition ex_secret :: SNote where
  "ex_secret = \<lparr> noteId = ''sec1'', title = ''Payroll'', shareId = ''payroll'',
     getCredentials = [''alice:pw''] \<rparr>"

definition ex_table :: "string \<rightharpoonup> SNote" where
  "ex_table = [''_share'' \<mapsto> ex_index, ''docs1'' \<mapsto> ex_docs, ''other1'' \<mapsto> ex_other,
     ''sec1'' \<mapsto> ex_secret]"

definition ex_shaca :: Shaca where
  "ex_shaca = \<lparr> shaca_notes = ex_table, getNote = ex_table, shareIndexEnabled = True \<rparr>"

text \<open>A cache without the share index note, the index switched off.\<close>

definition ex_shaca_bare :: Shaca where
  "ex_shaca_bare = \<lparr> shaca_notes = [''docs1'' \<mapsto> ex_docs], getNote = [''docs1'' \<mapsto> ex_docs],
     shareIndexEnabled = False \<rparr>"

text \<open>Base64 decoding, on the two encodings the samples use.\<close>

definition ex_b64 :: "string \<Rightarrow> string" where
  "ex_b64 s = (if s = ''YWxpY2U6cHc='' then ''alice:pw''
               else if s = ''YWxpY2U6d3Jvbmc='' then ''alice:wrong'' else [])"

text \<open>A search service that answers every query with the given results.\<close>

definition ex_find :: "'s SearchResult list \<Rightarrow> string \<Rightarrow> SearchContext \<Rightarrow> 's SearchResult list" where
  "ex_find rs q ctx = rs"

definition ex_sr_secret :: "nat SearchResult" where
  "ex_sr_secret = \<lparr> sr_noteId = ''sec1'',
     sr_notePathArray = [''root'', ''_share'', ''docs1'', ''sec1''], sr_score = 10 \<rparr>"

text \<open>
  A result reached through a note that the share cache does not hold (\<^verbatim>\<open>tmp7\<close>).
\<close>

definition ex_sr_deep :: "nat SearchResult" where
  "ex_sr_deep = \<lparr> sr_noteId = ''sec1'',
     sr_notePathArray = [''root'', ''_share'', ''docs1'', ''tmp7'', ''sec1''], sr_score = 4 \<rparr>"

section \<open>Properties of the search context\<close>

lemma addError_keeps: "hasError ctx \<Longrightarrow> addError m ctx = ctx"
  by (simp add: addError_def hasError_def)

lemma addErrors_keeps: "hasError ctx \<Longrightarrow> addErrors ms ctx = ctx"
  by (induction ms arbitrary: ctx) (simp_all add: addError_keeps)

lemma addError_first:
  "\<not> hasError ctx \<Longrightarrow> m \<noteq> [] \<Longrightarrow> hasError (addError m ctx) \<and> error (addError m ctx) = Some m"
  by (simp add: addError_def hasError_def truthy_str_def)

text \<open>
  C3, as the code has it. On a context that holds no error yet, a first message that is
  not the empty string is the one kept: after \<^verbatim>\<open>addError(m1)\<close> and \<^verbatim>\<open>addError(m2)\<close> the
  stored error is \<open>m1\<close>, and \<^verbatim>\<open>hasError()\<close> is true after the first call and after any
  run of later calls. (An empty first message is not kept: the code tests the stored
  error for truthiness.)
\<close>

theorem addError_first_nonempty_wins:
  assumes "\<not> hasError ctx" and "m1 \<noteq> []"
  shows "getError (addError m2 (addError m1 ctx)) = Some m1
       \<and> hasError (addError m1 ctx)
       \<and> hasError (addError m2 (addError m1 ctx))
       \<and> hasError (addErrors ms (addError m1 ctx))
       \<and> getError (addErrors ms (addError m1 ctx)) = Some m1"
proof -
  from assms have h: "hasError (addError m1 ctx)" and e: "error (addError m1 ctx) = Some m1"
    using addError_first by blast+
  from h have "addError m2 (addError m1 ctx) = addError m1 ctx"
    by (rule addError_keeps)
  moreover from h have "addErrors ms (addError m1 ctx) = addError m1 ctx"
    by (rule addErrors_keeps)
  ultimately show ?thesis using h e by (simp add: getError_def)
qed

theorem addError_first_nonempty_wins_witness:
  "\<not> hasError (SearchContext_default ''root'') \<and> ''unbalanced quote'' \<noteq> []
   \<and> getError (addError ''unknown operator''
        (addError ''unbalanced quote'' (SearchContext_default ''root'')))
       = Some ''unbalanced quote''
   \<and> hasError (addError ''unbalanced quote'' (SearchContext_default ''root''))
   \<and> hasError (addError ''unknown operator''
        (addError ''unbalanced quote'' (SearchContext_default ''root'')))
   \<and> hasError (addErrors [''a'', ''b'']
        (addError ''unbalanced quote'' (SearchContext_default ''root'')))"
proof -
  have h: "\<not> hasError (SearchContext_default ''root'')"
    by (simp add: hasError_def SearchContext_default_def SearchContext_new_def
        truthy_str_def Let_def)
  have n: "''unbalanced quote'' \<noteq> []" by simp
  show ?thesis
    using h n addError_first_nonempty_wins [OF h n, of "''unknown operator''" "[''a'', ''b'']"]
    by simp
qed

text \<open>
  C3 as stated fails for an empty first message: on a fresh context,
  \<^verbatim>\<open>addError("")\<close> leaves \<^verbatim>\<open>hasError()\<close> false, and the second message is the one stored.
\<close>

theorem addError_empty_first_counterexample:
  "getError (addError ''second'' (addError [] (SearchContext_default ''root''))) = Some ''second''
   \<and> getError (addError ''second'' (addError [] (SearchContext_default ''root''))) \<noteq> Some []
   \<and> \<not> hasError (addError [] (SearchContext_default ''root''))"
  by (simp add: getError_def addError_def hasError_def SearchContext_default_def
      SearchContext_new_def truthy_str_def Let_def emptyParams_def)

text \<open>
  C4, as the code has it. With no \<^verbatim>\<open>ancestorNoteId\<close> in the input, the context's ancestor
  is the hoisted note id unless \<^verbatim>\<open>ignoreHoistedNote\<close> is true, and undefined when it is
  true. A supplied ancestor that is not the empty string is kept unchanged. A supplied
  empty string is treated as no ancestor: replaced by the hoisted note id unless
  \<^verbatim>\<open>ignoreHoistedNote\<close> is true, kept when it is true.
\<close>

theorem constructor_ancestor:
  fixes params :: "'a SearchParams_scheme"
  shows "(p_ancestorNoteId params = None \<and> p_ignoreHoistedNote params \<noteq> Some True
            \<longrightarrow> ancestorNoteId (SearchContext_new hoisted params) = Some hoisted)
       \<and> (p_ancestorNoteId params = None \<and> p_ignoreHoistedNote params = Some True
            \<longrightarrow> ancestorNoteId (SearchContext_new hoisted params) = None)
       \<and> (\<forall>a. p_ancestorNoteId params = Some a \<and> a \<noteq> []
            \<longrightarrow> ancestorNoteId (SearchContext_new hoisted params) = Some a)
       \<and> (p_ancestorNoteId params = Some [] \<and> p_ignoreHoistedNote params \<noteq> Some True
            \<longrightarrow> ancestorNoteId (SearchContext_new hoisted params) = Some hoisted)
       \<and> (p_ancestorNoteId params = Some [] \<and> p_ignoreHoistedNote params = Some True
            \<longrightarrow> ancestorNoteId (SearchContext_new hoisted params) = Some [])"
  by (auto simp: SearchContext_new_def Let_def truthy_str_def truthy_bool_def
      split: option.splits)

theorem constructor_ancestor_witness:
  "p_ancestorNoteId emptyParams = None \<and> p_ignoreHoistedNote emptyParams \<noteq> Some True
   \<and> ancestorNoteId (SearchContext_new ''root'' emptyParams) = Some ''root''
   \<and> p_ancestorNoteId (emptyParams\<lparr> p_ignoreHoistedNote := Some True \<rparr>) = None
   \<and> ancestorNoteId (SearchContext_new ''root'' (emptyParams\<lparr> p_ignoreHoistedNote := Some True \<rparr>))
       = None
   \<and> p_ancestorNoteId (emptyParams\<lparr> p_ancestorNoteId := Some ''n1'' \<rparr>) = Some ''n1''
   \<and> ancestorNoteId (SearchContext_new ''root'' (emptyParams\<lparr> p_ancestorNoteId := Some ''n1'' \<rparr>))
       = Some ''n1''"
  using constructor_ancestor [of emptyParams "''root''"]
    constructor_ancestor [of "emptyParams\<lparr> p_ignoreHoistedNote := Some True \<rparr>" "''root''"]
    constructor_ancestor [of "emptyParams\<lparr> p_ancestorNoteId := Some ''n1'' \<rparr>" "''root''"]
  by (simp add: emptyParams_def)

text \<open>
  C4 as stated fails for a supplied ancestor that is the empty string: with
  \<^verbatim>\<open>ignoreHoistedNote\<close> absent it is replaced by the hoisted note id.
\<close>

theorem constructor_empty_ancestor_counterexample:
  "p_ancestorNoteId (emptyParams\<lparr> p_ancestorNoteId := Some [] \<rparr>) = Some []
   \<and> ancestorNoteId (SearchContext_new ''root'' (emptyParams\<lparr> p_ancestorNoteId := Some [] \<rparr>))
       = Some ''root''
   \<and> ancestorNoteId (SearchContext_new ''root'' (emptyParams\<lparr> p_ancestorNoteId := Some [] \<rparr>))
       \<noteq> p_ancestorNoteId (emptyParams\<lparr> p_ancestorNoteId := Some [] \<rparr>)"
  by (simp add: SearchContext_new_def Let_def truthy_str_def truthy_bool_def emptyParams_def)

text \<open>
  C5. Each boolean option of the context is false when the input does not carry it, and
  \<^verbatim>\<open>enableFuzzyMatching\<close> is true after construction for every input, whatever other
  properties the argument object has.
\<close>

theorem constructor_boolean_defaults:
  fixes params :: "'a SearchParams_scheme"
  shows "(p_fastSearch params = None \<longrightarrow> \<not> fastSearch (SearchContext_new hoisted params))
       \<and> (p_includeArchivedNotes params = None
            \<longrightarrow> \<not> includeArchivedNotes (SearchContext_new hoisted params))
       \<and> (p_includeHiddenNotes params = None
            \<longrightarrow> \<not> includeHiddenNotes (SearchContext_new hoisted params))
       \<and> (p_ignoreHoistedNote params = None
            \<longrightarrow> \<not> ignoreHoistedNote (SearchContext_new hoisted params))
       \<and> (p_ignoreInternalAttributes params = None
            \<longrightarrow> \<not> ignoreInternalAttributes (SearchContext_new hoisted params))
       \<and> (p_fuzzyAttributeSearch params = None
            \<longrightarrow> \<not> fuzzyAttributeSearch (SearchContext_new hoisted params))
       \<and> enableFuzzyMatching (SearchContext_new hoisted params)"
  by (simp add: SearchContext_new_def Let_def truthy_bool_def)

theorem constructor_boolean_defaults_witness:
  "p_fastSearch fuzzyOffParams = None
   \<and> \<not> fastSearch (SearchContext_new ''root'' fuzzyOffParams)
   \<and> p_includeArchivedNotes fuzzyOffParams = None
   \<and> \<not> includeArchivedNotes (SearchContext_new ''root'' fuzzyOffParams)
   \<and> p_includeHiddenNotes fuzzyOffParams = None
   \<and> \<not> includeHiddenNotes (SearchContext_new ''root'' fuzzyOffParams)
   \<and> p_ignoreHoistedNote fuzzyOffParams = None
   \<and> \<not> ignoreHoistedNote (SearchContext_new ''root'' fuzzyOffParams)
   \<and> p_ignoreInternalAttributes fuzzyOffParams = None
   \<and> \<not> ignoreInternalAttributes (SearchContext_new ''root'' fuzzyOffParams)
   \<and> p_fuzzyAttributeSearch fuzzyOffParams = None
   \<and> \<not> fuzzyAttributeSearch (SearchContext_new ''root'' fuzzyOffParams)
   \<and> p_enableFuzzyMatching fuzzyOffParams = Some False
   \<and> enableFuzzyMatching (SearchContext_new ''root'' fuzzyOffParams)"
  using constructor_boolean_defaults [of fuzzyOffParams "''root''"]
  by (simp add: fuzzyOffParams_def)

section \<open>Properties of the share search\<close>

subsection \<open>Lists, strings and the loop over the credentials\<close>

lemma matchCredentials_iff: "matchCredentials a cs \<longleftrightarrow> a \<in> set cs"
  by (induction cs) (auto simp: safeCompare_def)

lemma mapE_Inr_iff: "mapE f xs = Inr ys \<longleftrightarrow> list_all2 (\<lambda>x y. f x = Inr y) xs ys"
proof (induction xs arbitrary: ys)
  case Nil
  then show ?case by auto
next
  case (Cons x xs)
  show ?case
  proof (cases "f x")
    case (Inl e)
    then show ?thesis by (auto simp: list_all2_Cons1)
  next
    case (Inr y)
    then show ?thesis using Cons.IH
      by (cases "mapE f xs") (auto simp: list_all2_Cons1)
  qed
qed

lemma mapE_total: "(\<exists>ys. mapE f xs = Inr ys) \<longleftrightarrow> (\<forall>x \<in> set xs. \<exists>y. f x = Inr y)"
proof (induction xs)
  case Nil
  then show ?case by simp
next
  case (Cons x xs)
  then show ?case
    by (cases "f x"; cases "mapE f xs") auto
qed

lemma js_error_only: "(e :: js_error) = TypeError"
  by (cases e) simp

lemma mapE_throws: "mapE f xs = Inl TypeError \<longleftrightarrow> (\<exists>x \<in> set xs. f x = Inl TypeError)"
proof -
  have "mapE f xs = Inl TypeError \<longleftrightarrow> \<not> (\<exists>ys. mapE f xs = Inr ys)"
    by (cases "mapE f xs") (auto simp: js_error_only)
  also have "\<dots> \<longleftrightarrow> (\<exists>x \<in> set xs. \<not> (\<exists>y. f x = Inr y))"
    by (simp add: mapE_total)
  also have "\<dots> \<longleftrightarrow> (\<exists>x \<in> set xs. f x = Inl TypeError)"
  proof -
    have "\<And>x. (\<not> (\<exists>y. f x = Inr y)) = (f x = Inl TypeError)"
      subgoal for x by (cases "f x") (auto simp: js_error_only)
      done
    then show ?thesis by simp
  qed
  finally show ?thesis .
qed

lemma indexOf_ge: "- 1 \<le> indexOf xs a"
  by (induction xs) (auto simp: Let_def)

lemma indexOf_absent: "a \<notin> set xs \<Longrightarrow> indexOf xs a = - 1"
  by (induction xs) (auto simp: Let_def)

lemma indexOf_present: "a \<in> set xs \<Longrightarrow> 0 \<le> indexOf xs a"
  by (induction xs) (auto simp: Let_def)

lemma slice_after_present:
  "a \<in> set xs \<Longrightarrow> slice xs (indexOf xs a + 1) = tl (dropWhile (\<lambda>i. i \<noteq> a) xs)"
proof (induction xs)
  case Nil
  then show ?case by simp
next
  case (Cons x xs)
  show ?case
  proof (cases "x = a")
    case True
    then show ?thesis by (simp add: slice_def)
  next
    case False
    with Cons.prems have in_xs: "a \<in> set xs" by simp
    then have pos: "0 \<le> indexOf xs a" by (rule indexOf_present)
    from Cons.IH [OF in_xs] pos have "drop (nat (indexOf xs a + 1)) xs = tl (dropWhile (\<lambda>i. i \<noteq> a) xs)"
      by (simp add: slice_def)
    moreover from pos have "nat (indexOf xs a + 1 + 1) = Suc (nat (indexOf xs a + 1))"
      by simp
    ultimately show ?thesis using False pos
      by (simp add: slice_def Let_def)
  qed
qed

lemma slice_after_absent: "a \<notin> set xs \<Longrightarrow> slice xs (indexOf xs a + 1) = xs"
  by (simp add: indexOf_absent slice_def)

lemma path_titles:
  "mapE (\<lambda>i. case shaca_notes sh i of None \<Rightarrow> Inl TypeError | Some n \<Rightarrow> Inr (title n))
        (filter (\<lambda>i. shaca_notes sh i \<noteq> None) xs)
   = Inr (List.map_filter (\<lambda>i. map_option title (shaca_notes sh i)) xs)"
  by (induction xs) auto

text \<open>\<^verbatim>\<open>trim\<close> leaves nothing exactly of a string of white space only.\<close>

lemma strip_empty_tokens:
  "strip p1 p2 p3 s = [] \<Longrightarrow> \<exists>ts. list_all (tok p1 p2 p3) ts \<and> s = concat ts"
proof (induction p1 p2 p3 s rule: strip.induct)
  case (1 p1 p2 p3 a b c s)
  show ?case
  proof (cases "p1 a")
    case True
    with 1 obtain ts where "list_all (tok p1 p2 p3) ts" "b # c # s = concat ts" by auto
    with True have "list_all (tok p1 p2 p3) ([a] # ts) \<and> a # b # c # s = concat ([a] # ts)"
      by (simp add: tok_def)
    then show ?thesis by blast
  next
    case n1: False
    show ?thesis
    proof (cases "p2 a b")
      case True
      with n1 1 obtain ts where "list_all (tok p1 p2 p3) ts" "c # s = concat ts" by auto
      with True have "list_all (tok p1 p2 p3) ([a, b] # ts) \<and> a # b # c # s = concat ([a, b] # ts)"
        by (simp add: tok_def)
      then show ?thesis by blast
    next
      case n2: False
      show ?thesis
      proof (cases "p3 a b c")
        case True
        with n1 n2 1 obtain ts where "list_all (tok p1 p2 p3) ts" "s = concat ts" by auto
        with True have "list_all (tok p1 p2 p3) ([a, b, c] # ts) \<and> a # b # c # s = concat ([a, b, c] # ts)"
          by (simp add: tok_def)
        then show ?thesis by blast
      next
        case False
        with n1 n2 1 show ?thesis by simp
      qed
    qed
  qed
next
  case (2 p1 p2 p3 a b)
  show ?case
  proof (cases "p1 a")
    case True
    with 2 obtain ts where "list_all (tok p1 p2 p3) ts" "[b] = concat ts" by auto
    with True have "list_all (tok p1 p2 p3) ([a] # ts) \<and> [a, b] = concat ([a] # ts)"
      by (simp add: tok_def)
    then show ?thesis by blast
  next
    case False
    with 2 have "p2 a b" by (auto split: if_splits)
    then have "list_all (tok p1 p2 p3) [[a, b]] \<and> [a, b] = concat [[a, b]]"
      by (simp add: tok_def)
    then show ?thesis by blast
  qed
next
  case (3 p1 p2 p3 a)
  then have "p1 a" by (auto split: if_splits)
  then have "list_all (tok p1 p2 p3) [[a]] \<and> [a] = concat [[a]]"
    by (simp add: tok_def)
  then show ?case by blast
next
  case (4 p1 p2 p3)
  have "list_all (tok p1 p2 p3) [] \<and> [] = concat []" by simp
  then show ?case by blast
qed

lemma strip_one: "p1 a \<Longrightarrow> strip p1 p2 p3 (a # s) = strip p1 p2 p3 s"
proof (cases s)
  case Nil
  then show "p1 a \<Longrightarrow> ?thesis" by simp
next
  case (Cons b t)
  then show "p1 a \<Longrightarrow> ?thesis" by (cases t) auto
qed

lemma strip_two:
  "\<not> p1 a \<Longrightarrow> p2 a b \<Longrightarrow> strip p1 p2 p3 (a # b # s) = strip p1 p2 p3 s"
  by (cases s) auto

lemma strip_three:
  "\<not> p1 a \<Longrightarrow> \<not> p2 a b \<Longrightarrow> p3 a b c \<Longrightarrow> strip p1 p2 p3 (a # b # c # s) = strip p1 p2 p3 s"
  by simp

lemma strip_tokens_empty:
  assumes x2: "\<And>a b. p2 a b \<Longrightarrow> \<not> p1 a"
    and x3: "\<And>a b c. p3 a b c \<Longrightarrow> \<not> p1 a \<and> \<not> p2 a b"
  shows "list_all (tok p1 p2 p3) ts \<Longrightarrow> strip p1 p2 p3 (concat ts) = []"
proof (induction ts)
  case Nil
  show ?case by simp
next
  case (Cons t ts)
  then have t: "tok p1 p2 p3 t" and rest: "strip p1 p2 p3 (concat ts) = []" by simp_all
  from t consider (one) a where "t = [a]" "p1 a"
    | (two) a b where "t = [a, b]" "p2 a b"
    | (three) a b c where "t = [a, b, c]" "p3 a b c"
    by (auto simp: tok_def)
  then show ?case
  proof cases
    case one
    with rest show ?thesis by (simp add: strip_one)
  next
    case two
    with x2 [of a b] rest show ?thesis by (simp add: strip_two)
  next
    case three
    with x3 [of a b c] rest show ?thesis by (simp add: strip_three del: strip.simps)
  qed
qed

lemma strip_idem: "strip p1 p2 p3 (strip p1 p2 p3 s) = strip p1 p2 p3 s"
  by (induction p1 p2 p3 s rule: strip.induct) auto

lemma whiteSpace_shape:
  "w \<in> set whiteSpace \<Longrightarrow> (\<exists>a. w = [a]) \<or> (\<exists>a b. w = [a, b]) \<or> (\<exists>a b c. w = [a, b, c])"
  by (simp add: whiteSpace_def) (elim disjE; simp)

lemma tok_forward: "tok isSpace1 isSpace2 isSpace3 t \<longleftrightarrow> t \<in> set whiteSpace"
  using whiteSpace_shape [of t] by (auto simp: tok_def isSpace1_def isSpace2_def isSpace3_def)

lemma space2_not1: "isSpace2 a b \<Longrightarrow> \<not> isSpace1 a"
  by (simp add: isSpace1_def isSpace2_def whiteSpace_def)

lemma space3_not12: "isSpace3 a b c \<Longrightarrow> \<not> isSpace1 a \<and> \<not> isSpace2 a b'"
  by (simp add: isSpace1_def isSpace2_def isSpace3_def whiteSpace_def) (elim disjE; simp)

lemma space2_not1_rev: "isSpace2 b a \<Longrightarrow> \<not> isSpace1 a"
  by (simp add: isSpace1_def isSpace2_def whiteSpace_def)

lemma space3_not12_rev: "isSpace3 c b a \<Longrightarrow> \<not> isSpace1 a \<and> \<not> isSpace2 b a"
  by (simp add: isSpace1_def isSpace2_def isSpace3_def whiteSpace_def) (elim disjE; simp)

lemma tok_backward:
  "tok isSpace1 (\<lambda>a b. isSpace2 b a) (\<lambda>a b c. isSpace3 c b a) t \<longleftrightarrow> rev t \<in> set whiteSpace"
proof -
  have r1: "\<And>a. rev t = [a] \<longleftrightarrow> t = [a]"
    by simp
  have r2: "\<And>a b. rev t = [a, b] \<longleftrightarrow> t = [b, a]"
    using rev_swap [of t] by force
  have r3: "\<And>a b c. rev t = [a, b, c] \<longleftrightarrow> t = [c, b, a]"
    using rev_swap [of t] by force
  have "rev t \<in> set whiteSpace \<longleftrightarrow> tok isSpace1 isSpace2 isSpace3 (rev t)"
    by (simp add: tok_forward)
  also have "\<dots> \<longleftrightarrow> tok isSpace1 (\<lambda>a b. isSpace2 b a) (\<lambda>a b c. isSpace3 c b a) t"
    unfolding tok_def r1 r2 r3 by blast
  finally show ?thesis by simp
qed

lemma trimStart_empty_iff: "trimStart s = [] \<longleftrightarrow> whiteSpaceOnly s"
proof
  assume "trimStart s = []"
  then have "strip isSpace1 isSpace2 isSpace3 s = []" by (simp add: trimStart_def)
  from strip_empty_tokens [OF this]
  obtain ts where "list_all (tok isSpace1 isSpace2 isSpace3) ts" and "s = concat ts" by blast
  then have "list_all (\<lambda>w. w \<in> set whiteSpace) ts \<and> s = concat ts"
    by (simp add: tok_forward list_all_iff)
  then show "whiteSpaceOnly s" unfolding whiteSpaceOnly_def by blast
next
  assume "whiteSpaceOnly s"
  then obtain ws where ws: "list_all (\<lambda>w. w \<in> set whiteSpace) ws" and s: "s = concat ws"
    unfolding whiteSpaceOnly_def by blast
  from ws have "list_all (tok isSpace1 isSpace2 isSpace3) ws"
    by (simp add: tok_forward list_all_iff)
  then have "strip isSpace1 isSpace2 isSpace3 (concat ws) = []"
    using space2_not1 space3_not12 by (rule strip_tokens_empty [rotated 2])
  with s show "trimStart s = []" by (simp add: trimStart_def)
qed

lemma trimEnd_empty_iff: "trimEnd s = [] \<longleftrightarrow> whiteSpaceOnly s"
proof
  assume "trimEnd s = []"
  then have "strip isSpace1 (\<lambda>a b. isSpace2 b a) (\<lambda>a b c. isSpace3 c b a) (rev s) = []"
    by (simp add: trimEnd_def)
  from strip_empty_tokens [OF this]
  obtain ts where ts: "list_all (tok isSpace1 (\<lambda>a b. isSpace2 b a) (\<lambda>a b c. isSpace3 c b a)) ts"
    and r: "rev s = concat ts" by blast
  from ts have "list_all (\<lambda>w. w \<in> set whiteSpace) (rev (map rev ts))"
    by (simp add: tok_backward list_all_iff)
  moreover from r have "rev (rev s) = concat (map rev (rev ts))"
    by (simp only: rev_concat)
  then have "s = concat (rev (map rev ts))" by (simp add: rev_map)
  ultimately show "whiteSpaceOnly s" unfolding whiteSpaceOnly_def by blast
next
  assume "whiteSpaceOnly s"
  then obtain ws where ws: "list_all (\<lambda>w. w \<in> set whiteSpace) ws" and s: "s = concat ws"
    unfolding whiteSpaceOnly_def by blast
  from ws have "list_all (tok isSpace1 (\<lambda>a b. isSpace2 b a) (\<lambda>a b c. isSpace3 c b a)) (rev (map rev ws))"
    by (simp add: tok_backward list_all_iff)
  then have "strip isSpace1 (\<lambda>a b. isSpace2 b a) (\<lambda>a b c. isSpace3 c b a) (concat (rev (map rev ws))) = []"
    using space2_not1_rev space3_not12_rev by (rule strip_tokens_empty [rotated 2])
  moreover from s have "rev s = concat (rev (map rev ws))" by (simp add: rev_concat rev_map)
  ultimately show "trimEnd s = []" by (simp add: trimEnd_def)
qed

lemma trim_empty_iff: "trim s = [] \<longleftrightarrow> whiteSpaceOnly s"
proof
  assume "trim s = []"
  then have "whiteSpaceOnly (trimStart s)" by (simp add: trim_def trimEnd_empty_iff)
  then have "trimStart (trimStart s) = []" by (simp add: trimStart_empty_iff)
  then have "trimStart s = []" by (simp add: trimStart_def strip_idem)
  then show "whiteSpaceOnly s" by (simp add: trimStart_empty_iff)
next
  assume "whiteSpaceOnly s"
  then have "trimStart s = []" by (simp add: trimStart_empty_iff)
  then show "trim s = []" by (simp add: trim_def trimEnd_def)
qed

text \<open>The white space and \<^verbatim>\<open>trim\<close>, unfolded.\<close>

lemmas trim_defs = trim_def trimStart_def trimEnd_def isSpace1_def isSpace2_def isSpace3_def
  whiteSpace_def

subsection \<open>The result mapping and the access check in closed form\<close>

lemma startsWith_iff: "startsWith s p \<longleftrightarrow> (\<exists>t. s = p @ t)"
  unfolding startsWith_def
  by (metis append_eq_conv_conj append_take_drop_id)

lemma mapResult_eq:
  "mapResult sh anc sr =
    (case shaca_notes sh (sr_noteId sr) of
       None \<Rightarrow> Inl TypeError
     | Some n \<Rightarrow>
         Inr \<lparr> r_id = shareId n, r_title = title n, r_score = sr_score sr,
               r_path = join '' / ''
                 (cachedTitles sh
                    (slice (sr_notePathArray sr) (indexOf (sr_notePathArray sr) anc + 1))) \<rparr>)"
  unfolding mapResult_def Let_def path_titles cachedTitles_def
  by (simp split: option.splits)

lemma checkNoteAccess_eq:
  "checkNoteAccess b64 sh nId req res =
    (case getNote sh nId of
       None \<Rightarrow>
         (None, json (JsonMessage (''Note '' @ [CHR 0x27] @ nId @ [CHR 0x27] @ '' not found.''))
                  (status 404 res))
     | Some note \<Rightarrow>
         if nId = ''_share'' \<and> \<not> shareIndexEnabled sh then
           (None, json (JsonMessage ''Accessing share index is forbidden.'') (status 403 res))
         else if granted b64 note req then (Some note, res) else (None, res))"
  by (auto simp: checkNoteAccess_def granted_def Let_def matchCredentials_iff
      split: option.splits)

lemma shareSearch_mw_eq:
  "shareSearch_mw b64 hoisted findRes sh req res = shareSearch b64 hoisted findRes sh req res"
  unfolding shareSearch_mw_def shareSearch_def checkNoteAccess_mw_def checkNoteAccess_def ..

lemma shareSearch_not_string:
  "ancestorOf req = None \<Longrightarrow>
   shareSearch b64 hoisted findRes sh req res =
     Inr \<lparr> out_res = json (JsonMessage
                ([CHR 0x27] @ ''ancestorNoteId'' @ [CHR 0x27] @ '' parameter is mandatory.''))
                (status 400 res),
           out_searches = [] \<rparr>"
  by (auto simp: shareSearch_def ancestorOf_def split: qval.splits)

lemma shareSearch_denied:
  "ancestorOf req = Some anc \<Longrightarrow> checkNoteAccess b64 sh anc req res = (None, res1) \<Longrightarrow>
   shareSearch b64 hoisted findRes sh req res = Inr \<lparr> out_res = res1, out_searches = [] \<rparr>"
  by (auto simp: shareSearch_def ancestorOf_def split: qval.splits)

lemma shareSearch_blank:
  "ancestorOf req = Some anc \<Longrightarrow> checkNoteAccess b64 sh anc req res = (Some note, res1) \<Longrightarrow>
   searchMissing req \<Longrightarrow>
   shareSearch b64 hoisted findRes sh req res =
     Inr \<lparr> out_res = json (JsonMessage
                ([CHR 0x27] @ ''search'' @ [CHR 0x27] @ '' parameter is mandatory.''))
                (status 400 res1),
           out_searches = [] \<rparr>"
  by (auto simp: shareSearch_def ancestorOf_def searchMissing_def split: qval.splits)

lemma shareSearch_run:
  "ancestorOf req = Some anc \<Longrightarrow> checkNoteAccess b64 sh anc req res = (Some note, res1) \<Longrightarrow>
   query_search req = QString search \<Longrightarrow> trim search \<noteq> [] \<Longrightarrow>
   shareSearch b64 hoisted findRes sh req res =
     (case mapE (mapResult sh anc)
             (findRes search (SearchContext_new hoisted (emptyParams\<lparr> p_ancestorNoteId := Some anc \<rparr>))) of
        Inl e \<Rightarrow> Inl e
      | Inr rs \<Rightarrow>
          Inr \<lparr> out_res = json (JsonResults rs) res1,
                out_searches =
                  [(search, SearchContext_new hoisted (emptyParams\<lparr> p_ancestorNoteId := Some anc \<rparr>))] \<rparr>)"
  by (auto simp: shareSearch_def ancestorOf_def Let_def split: qval.splits)

lemma checkNoteAccess_Some:
  "checkNoteAccess b64 sh nId req res = (Some note, res1) \<Longrightarrow>
   res1 = res \<and> getNote sh nId = Some note \<and> granted b64 note req
   \<and> \<not> (nId = ''_share'' \<and> \<not> shareIndexEnabled sh)"
  by (auto simp: checkNoteAccess_eq split: option.splits if_splits)

lemma checkNoteAccess_None:
  "checkNoteAccess b64 sh nId req res = (None, res1) \<Longrightarrow>
   res1 = res \<or> (\<exists>m. sent res1 = Some (JsonMessage m) \<and> statusCode res1 \<in> {403, 404})"
  by (auto simp: checkNoteAccess_eq json_def status_def split: option.splits if_splits)

lemma shareSearch_results_inv:
  fixes out :: "'s Outcome"
  assumes run: "shareSearch b64 hoisted findRes sh req newResponse = Inr out"
    and body: "sent (out_res out) = Some (JsonResults rs)"
  shows "\<exists>anc search note.
           ancestorOf req = Some anc
         \<and> checkNoteAccess b64 sh anc req (newResponse :: 's Response) = (Some note, newResponse)
         \<and> query_search req = QString search \<and> trim search \<noteq> []
         \<and> mapE (mapResult sh anc)
              (findRes search (SearchContext_new hoisted (emptyParams\<lparr> p_ancestorNoteId := Some anc \<rparr>)))
             = Inr rs
         \<and> out = \<lparr> out_res = json (JsonResults rs) newResponse,
                   out_searches =
                     [(search, SearchContext_new hoisted (emptyParams\<lparr> p_ancestorNoteId := Some anc \<rparr>))] \<rparr>"
proof (cases "ancestorOf req")
  case None
  from shareSearch_not_string [OF None, of b64 hoisted findRes sh newResponse] run body
  show ?thesis by (auto simp: json_def)
next
  case (Some anc)
  obtain r res1 where chk: "checkNoteAccess b64 sh anc req (newResponse :: 's Response) = (r, res1)"
    by (cases "checkNoteAccess b64 sh anc req (newResponse :: 's Response)") auto
  show ?thesis
  proof (cases r)
    case None
    with chk have c: "checkNoteAccess b64 sh anc req newResponse = (None, res1)" by simp
    from shareSearch_denied [OF Some c, of hoisted findRes] run have "out_res out = res1" by auto
    with checkNoteAccess_None [OF c] body show ?thesis
      by (auto simp: newResponse_def)
  next
    case (Some nt)
    with chk have c: "checkNoteAccess b64 sh anc req newResponse = (Some nt, res1)" by simp
    from checkNoteAccess_Some [OF c] have r1: "res1 = newResponse" by simp
    show ?thesis
    proof (cases "searchMissing req")
      case True
      from shareSearch_blank [OF \<open>ancestorOf req = Some anc\<close> c True, of hoisted findRes] run body
      show ?thesis by (auto simp: json_def)
    next
      case False
      then obtain search where s: "query_search req = QString search" and t: "trim search \<noteq> []"
        by (auto simp: searchMissing_def split: qval.splits)
      from shareSearch_run [OF \<open>ancestorOf req = Some anc\<close> c s t, of hoisted findRes] run body r1
      have "mapE (mapResult sh anc)
              (findRes search (SearchContext_new hoisted (emptyParams\<lparr> p_ancestorNoteId := Some anc \<rparr>)))
             = Inr rs
         \<and> out = \<lparr> out_res = json (JsonResults rs) newResponse,
                   out_searches =
                     [(search, SearchContext_new hoisted (emptyParams\<lparr> p_ancestorNoteId := Some anc \<rparr>))] \<rparr>"
        by (auto simp: json_def split: sum.splits)
      with \<open>ancestorOf req = Some anc\<close> c r1 s t show ?thesis by auto
    qed
  qed
qed

lemma strip_credentials_fields:
  assumes "map_option (getCredentials_update (\<lambda>_. [])) a = map_option (getCredentials_update (\<lambda>_. [])) b"
  shows "(a = None \<longleftrightarrow> b = None) \<and> map_option title a = map_option title b
       \<and> map_option shareId a = map_option shareId b"
proof (cases a; cases b)
  fix x y assume a: "a = Some x" and b: "b = Some y"
  with assms have e: "x\<lparr> getCredentials := [] \<rparr> = y\<lparr> getCredentials := [] \<rparr>" by simp
  have "title x = title (x\<lparr> getCredentials := [] \<rparr>)" by simp
  also have "\<dots> = title y" by (simp add: e)
  finally have t: "title x = title y" .
  have "shareId x = shareId (x\<lparr> getCredentials := [] \<rparr>)" by simp
  also have "\<dots> = shareId y" by (simp add: e)
  finally have "shareId x = shareId y" .
  with t a b show ?thesis by simp
qed (use assms in auto)

lemma mapResult_ignores_credentials:
  assumes "\<forall>k. map_option (getCredentials_update (\<lambda>_. [])) (shaca_notes sh' k)
              = map_option (getCredentials_update (\<lambda>_. [])) (shaca_notes sh k)"
  shows "mapResult sh' anc sr = mapResult sh anc sr"
proof -
  have f: "\<And>k. (shaca_notes sh' k = None \<longleftrightarrow> shaca_notes sh k = None)
           \<and> map_option title (shaca_notes sh' k) = map_option title (shaca_notes sh k)
           \<and> map_option shareId (shaca_notes sh' k) = map_option shareId (shaca_notes sh k)"
    using assms strip_credentials_fields by blast
  then have "(\<lambda>i. map_option title (shaca_notes sh' i)) = (\<lambda>i. map_option title (shaca_notes sh i))"
    by auto
  then have ct: "cachedTitles sh' = cachedTitles sh"
    by (auto simp: cachedTitles_def fun_eq_iff)
  from f [of "sr_noteId sr"] show ?thesis
    by (cases "shaca_notes sh' (sr_noteId sr)"; cases "shaca_notes sh (sr_noteId sr)")
       (auto simp: mapResult_eq ct)
qed

lemma shareSearch_ignores_result_credentials:
  assumes anc: "\<forall>anc. ancestorOf req = Some anc \<longrightarrow> getNote sh' anc = getNote sh anc"
    and idx: "shareIndexEnabled sh' = shareIndexEnabled sh"
    and tbl: "\<forall>k. map_option (getCredentials_update (\<lambda>_. [])) (shaca_notes sh' k)
              = map_option (getCredentials_update (\<lambda>_. [])) (shaca_notes sh k)"
  shows "shareSearch b64 hoisted findRes sh' req res = shareSearch b64 hoisted findRes sh req res"
proof (cases "ancestorOf req")
  case None
  then show ?thesis by (simp add: shareSearch_not_string)
next
  case (Some a)
  with anc have g: "getNote sh' a = getNote sh a" by simp
  have chk: "checkNoteAccess b64 sh' a req res = checkNoteAccess b64 sh a req res"
    unfolding checkNoteAccess_eq g idx ..
  have mr: "mapResult sh' a = mapResult sh a"
    by (rule ext) (rule mapResult_ignores_credentials [OF tbl])
  obtain r res1 where c: "checkNoteAccess b64 sh a req res = (r, res1)"
    by (cases "checkNoteAccess b64 sh a req res") auto
  show ?thesis
  proof (cases r)
    case None
    with c chk Some show ?thesis by (simp add: shareSearch_denied)
  next
    case (Some nt)
    note n = this
    show ?thesis
    proof (cases "searchMissing req")
      case True
      with c chk n \<open>ancestorOf req = Some a\<close> show ?thesis by (simp add: shareSearch_blank)
    next
      case False
      then obtain search where s: "query_search req = QString search" and t: "trim search \<noteq> []"
        by (auto simp: searchMissing_def split: qval.splits)
      from c chk n have c1: "checkNoteAccess b64 sh a req res = (Some nt, res1)"
        and c2: "checkNoteAccess b64 sh' a req res = (Some nt, res1)" by simp_all
      show ?thesis
        by (simp add: shareSearch_run [OF \<open>ancestorOf req = Some a\<close> c1 s t]
            shareSearch_run [OF \<open>ancestorOf req = Some a\<close> c2 s t] mr)
    qed
  qed
qed

lemma searchMissing_iff:
  "searchMissing req \<longleftrightarrow>
     (query_search req = QUndefined \<or> query_search req = QOther
      \<or> (\<exists>s. query_search req = QString s \<and> whiteSpaceOnly s))"
  by (auto simp: searchMissing_def trim_empty_iff split: qval.splits)

lemma ancestorOf_None: "ancestorOf req = None \<longleftrightarrow> query_ancestorNoteId req = QOther"
  by (simp add: ancestorOf_def split: qval.splits)

lemma ancestorOf_Some:
  "ancestorOf req = Some anc \<longleftrightarrow>
     (query_ancestorNoteId req = QString anc
      \<or> (query_ancestorNoteId req = QUndefined \<and> anc = ''_share''))"
  by (auto simp: ancestorOf_def split: qval.splits)

text \<open>The four ways the handler ends, by the access check and the search parameter.\<close>

lemma shareSearch_cases:
  fixes res :: "'s Response"
  obtains
    (not_string) "ancestorOf req = None"
  | (denied) anc res1 where "ancestorOf req = Some anc"
      "checkNoteAccess b64 sh anc req res = (None, res1)"
  | (blank) anc nt where "ancestorOf req = Some anc"
      "checkNoteAccess b64 sh anc req res = (Some nt, res)" "searchMissing req"
  | (run) anc nt search where "ancestorOf req = Some anc"
      "checkNoteAccess b64 sh anc req res = (Some nt, res)"
      "query_search req = QString search" "trim search \<noteq> []"
proof (cases "ancestorOf req")
  case None
  then show ?thesis by (rule not_string)
next
  case (Some anc)
  obtain r res1 where c: "checkNoteAccess b64 sh anc req res = (r, res1)"
    by (cases "checkNoteAccess b64 sh anc req res") auto
  show ?thesis
  proof (cases r)
    case None
    with c Some show ?thesis by (auto intro: denied)
  next
    case (Some nt)
    with c have c': "checkNoteAccess b64 sh anc req res = (Some nt, res1)" by simp
    from checkNoteAccess_Some [OF c'] c' have c'': "checkNoteAccess b64 sh anc req res = (Some nt, res)"
      by simp
    show ?thesis
    proof (cases "searchMissing req")
      case True
      with c'' \<open>ancestorOf req = Some anc\<close> show ?thesis by (auto intro: blank)
    next
      case False
      then obtain search where "query_search req = QString search" "trim search \<noteq> []"
        by (auto simp: searchMissing_def split: qval.splits)
      with c'' \<open>ancestorOf req = Some anc\<close> show ?thesis by (auto intro: run)
    qed
  qed
qed

text \<open>
  The two ways a note with credential labels answers: an exact match grants access, and
  anything else is refused without a word on the response.
\<close>

lemma checkNoteAccess_exact_match:
  assumes "getNote sh nId = Some nt" and "\<not> (nId = ''_share'' \<and> \<not> shareIndexEnabled sh)"
    and "authorization req = Some (''Basic '' @ enc)" and "b64 enc \<in> set (getCredentials nt)"
  shows "checkNoteAccess b64 sh nId req res = (Some nt, res)"
  using assms by (auto simp: checkNoteAccess_eq granted_def startsWith_def substring_def)

lemma checkNoteAccess_silent_refusal:
  assumes "getNote sh nId = Some nt" and "\<not> (nId = ''_share'' \<and> \<not> shareIndexEnabled sh)"
    and "\<not> granted b64 nt req"
  shows "checkNoteAccess b64 sh nId req res = (None, res)"
  using assms by (auto simp: checkNoteAccess_eq)

lemma shareSearch_silent_refusal:
  assumes "ancestorOf req = Some anc" and "getNote sh anc = Some nt"
    and "\<not> (anc = ''_share'' \<and> \<not> shareIndexEnabled sh)" and "\<not> granted b64 nt req"
  shows "shareSearch b64 hoisted findRes sh req res = Inr \<lparr> out_res = res, out_searches = [] \<rparr>"
  using shareSearch_denied [OF assms(1) checkNoteAccess_silent_refusal [OF assms(2-4)]] .

text \<open>
  What the search handler checks. Whenever it answers with a list of results, the
  ancestor has passed \<^verbatim>\<open>checkNoteAccess\<close> and the list has one entry for each result of
  the search service, in order; the credential labels of the notes in the table play
  no part in the outcome.
\<close>

lemma shareSearch_checks_ancestor_only:
  fixes out :: "'s Outcome"
  assumes run: "shareSearch b64 hoisted findRes sh req newResponse = Inr out"
    and body: "sent (out_res out) = Some (JsonResults rs)"
  shows "(\<exists>anc search note.
            ancestorOf req = Some anc
          \<and> checkNoteAccess b64 sh anc req (newResponse :: 's Response) = (Some note, newResponse)
          \<and> query_search req = QString search
          \<and> list_all2 (\<lambda>sr r. \<exists>n. shaca_notes sh (sr_noteId sr) = Some n
                               \<and> r_id r = shareId n \<and> r_title r = title n
                               \<and> r_score r = sr_score sr)
               (findRes search
                  (SearchContext_new hoisted (emptyParams\<lparr> p_ancestorNoteId := Some anc \<rparr>))) rs)
       \<and> (\<forall>sh'. (\<forall>anc. ancestorOf req = Some anc \<longrightarrow> getNote sh' anc = getNote sh anc)
               \<and> shareIndexEnabled sh' = shareIndexEnabled sh
               \<and> (\<forall>k. map_option (getCredentials_update (\<lambda>_. [])) (shaca_notes sh' k)
                      = map_option (getCredentials_update (\<lambda>_. [])) (shaca_notes sh k))
              \<longrightarrow> shareSearch b64 hoisted findRes sh' req newResponse = Inr out)"
proof
  from shareSearch_results_inv [OF run body]
  obtain anc search nt where a: "ancestorOf req = Some anc"
    and c: "checkNoteAccess b64 sh anc req (newResponse :: 's Response) = (Some nt, newResponse)"
    and s: "query_search req = QString search"
    and m: "mapE (mapResult sh anc)
              (findRes search (SearchContext_new hoisted (emptyParams\<lparr> p_ancestorNoteId := Some anc \<rparr>)))
             = Inr rs"
    by blast
  from m have "list_all2 (\<lambda>sr r. mapResult sh anc sr = Inr r)
     (findRes search (SearchContext_new hoisted (emptyParams\<lparr> p_ancestorNoteId := Some anc \<rparr>))) rs"
    by (simp add: mapE_Inr_iff)
  then have "list_all2 (\<lambda>sr r. \<exists>n. shaca_notes sh (sr_noteId sr) = Some n
                               \<and> r_id r = shareId n \<and> r_title r = title n
                               \<and> r_score r = sr_score sr)
     (findRes search (SearchContext_new hoisted (emptyParams\<lparr> p_ancestorNoteId := Some anc \<rparr>))) rs"
    by (rule list_all2_mono) (auto simp: mapResult_eq split: option.splits)
  with a c s show "\<exists>anc search note.
            ancestorOf req = Some anc
          \<and> checkNoteAccess b64 sh anc req (newResponse :: 's Response) = (Some note, newResponse)
          \<and> query_search req = QString search
          \<and> list_all2 (\<lambda>sr r. \<exists>n. shaca_notes sh (sr_noteId sr) = Some n
                               \<and> r_id r = shareId n \<and> r_title r = title n
                               \<and> r_score r = sr_score sr)
               (findRes search
                  (SearchContext_new hoisted (emptyParams\<lparr> p_ancestorNoteId := Some anc \<rparr>))) rs"
    by blast
next
  show "\<forall>sh'. (\<forall>anc. ancestorOf req = Some anc \<longrightarrow> getNote sh' anc = getNote sh anc)
               \<and> shareIndexEnabled sh' = shareIndexEnabled sh
               \<and> (\<forall>k. map_option (getCredentials_update (\<lambda>_. [])) (shaca_notes sh' k)
                      = map_option (getCredentials_update (\<lambda>_. [])) (shaca_notes sh k))
              \<longrightarrow> shareSearch b64 hoisted findRes sh' req newResponse = Inr out"
    using shareSearch_ignores_result_credentials [of req _ sh b64 hoisted findRes newResponse] run
    by auto
qed

text \<open>
  The entry of a result whose note is cached. On a path that holds the ancestor the
  breadcrumb starts after the first occurrence of the ancestor; on a path that does not
  (\<^verbatim>\<open>indexOf\<close> is \<open>-1\<close>) it is built from the whole path.
\<close>

lemma mapResult_path:
  assumes "shaca_notes sh (sr_noteId sr) = Some n"
  shows "mapResult sh anc sr =
    Inr \<lparr> r_id = shareId n, r_title = title n, r_score = sr_score sr,
          r_path = join '' / ''
            (cachedTitles sh
               (if anc \<in> set (sr_notePathArray sr)
                then tl (dropWhile (\<lambda>i. i \<noteq> anc) (sr_notePathArray sr))
                else sr_notePathArray sr)) \<rparr>"
  using assms
  by (simp add: mapResult_eq slice_after_present slice_after_absent)

text \<open>
  The lookup of a result's note is not guarded. Once the ancestor has passed the access
  check and \<^verbatim>\<open>search\<close> is usable, the handler throws exactly when some result names a note
  that the table does not hold, and answers with one entry for each result when every
  result's note is held. The middleware router does the same.
\<close>

lemma shareSearch_throws_iff:
  assumes a: "ancestorOf req = Some anc"
    and c: "checkNoteAccess b64 sh anc req res = (Some nt, res1)"
    and s: "query_search req = QString search"
    and t: "trim search \<noteq> []"
    and r: "results = findRes search
              (SearchContext_new hoisted (emptyParams\<lparr> p_ancestorNoteId := Some anc \<rparr>))"
  shows
    "(shareSearch b64 hoisted findRes sh req res = Inl TypeError
        \<longleftrightarrow> (\<exists>sr \<in> set results. shaca_notes sh (sr_noteId sr) = None))
   \<and> ((\<forall>sr \<in> set results. shaca_notes sh (sr_noteId sr) \<noteq> None) \<longrightarrow>
        (\<exists>rs. length rs = length results
            \<and> shareSearch b64 hoisted findRes sh req res =
                Inr \<lparr> out_res = json (JsonResults rs) res1,
                      out_searches =
                        [(search, SearchContext_new hoisted
                                    (emptyParams\<lparr> p_ancestorNoteId := Some anc \<rparr>))] \<rparr>))
   \<and> shareSearch_mw b64 hoisted findRes sh req res = shareSearch b64 hoisted findRes sh req res"
proof -
  have lookup: "\<And>sr. mapResult sh anc sr = Inl TypeError \<longleftrightarrow> shaca_notes sh (sr_noteId sr) = None"
    by (simp add: mapResult_eq split: option.splits)
  have throws: "mapE (mapResult sh anc) results = Inl TypeError
      \<longleftrightarrow> (\<exists>sr \<in> set results. shaca_notes sh (sr_noteId sr) = None)"
    by (simp add: mapE_throws lookup)
  have run: "shareSearch b64 hoisted findRes sh req res =
     (case mapE (mapResult sh anc) results of
        Inl e \<Rightarrow> Inl e
      | Inr rs \<Rightarrow>
          Inr \<lparr> out_res = json (JsonResults rs) res1,
                out_searches =
                  [(search, SearchContext_new hoisted (emptyParams\<lparr> p_ancestorNoteId := Some anc \<rparr>))] \<rparr>)"
    unfolding r by (rule shareSearch_run [OF a c s t])
  have p1: "shareSearch b64 hoisted findRes sh req res = Inl TypeError
        \<longleftrightarrow> (\<exists>sr \<in> set results. shaca_notes sh (sr_noteId sr) = None)"
    using throws by (cases "mapE (mapResult sh anc) results") (auto simp: run js_error_only)
  have p2: "(\<forall>sr \<in> set results. shaca_notes sh (sr_noteId sr) \<noteq> None) \<longrightarrow>
        (\<exists>rs. length rs = length results
            \<and> shareSearch b64 hoisted findRes sh req res =
                Inr \<lparr> out_res = json (JsonResults rs) res1,
                      out_searches =
                        [(search, SearchContext_new hoisted
                                    (emptyParams\<lparr> p_ancestorNoteId := Some anc \<rparr>))] \<rparr>)"
  proof
    assume all: "\<forall>sr \<in> set results. shaca_notes sh (sr_noteId sr) \<noteq> None"
    with throws have "mapE (mapResult sh anc) results \<noteq> Inl TypeError" by blast
    then obtain rs where m: "mapE (mapResult sh anc) results = Inr rs"
      by (cases "mapE (mapResult sh anc) results") (auto simp: js_error_only)
    then have "list_all2 (\<lambda>x y. mapResult sh anc x = Inr y) results rs"
      by (simp add: mapE_Inr_iff)
    then have "length rs = length results"
      by (simp add: list_all2_lengthD)
    with m run show "\<exists>rs. length rs = length results
            \<and> shareSearch b64 hoisted findRes sh req res =
                Inr \<lparr> out_res = json (JsonResults rs) res1,
                      out_searches =
                        [(search, SearchContext_new hoisted
                                    (emptyParams\<lparr> p_ancestorNoteId := Some anc \<rparr>))] \<rparr>"
      by auto
  qed
  have p3: "shareSearch_mw b64 hoisted findRes sh req res = shareSearch b64 hoisted findRes sh req res"
    by (rule shareSearch_mw_eq)
  show ?thesis
    by (rule conjI [OF p1 conjI [OF p2 p3]])
qed

text \<open>
  On a path that holds the ancestor, the ids after its first occurrence are what the
  specification's reading names.
\<close>

lemma spec_pathAfterAncestor_split:
  "anc \<notin> set pre \<Longrightarrow> spec_pathAfterAncestor anc (pre @ anc # post) = Some post"
proof -
  assume "anc \<notin> set pre"
  then have "dropWhile (\<lambda>i. i \<noteq> anc) pre = []" by auto
  then have "dropWhile (\<lambda>i. i \<noteq> anc) (pre @ anc # post) = anc # post"
    by (simp add: dropWhile_append)
  then show ?thesis by (simp add: spec_pathAfterAncestor_def)
qed

subsection \<open>Claims about the share router\<close>

text \<open>The sample data, unfolded.\<close>

lemmas ex_defs = ex_shaca_def ex_table_def ex_index_def ex_docs_def ex_other_def ex_secret_def
  ex_b64_def ex_find_def ex_sr_secret_def ex_sr_deep_def ex_shaca_bare_def

text \<open>
  C1, on the note \<^verbatim>\<open>sec1\<close>, which asks for the credentials \<^verbatim>\<open>alice:pw\<close>. The request carries
  no credentials, so \<^verbatim>\<open>checkNoteAccess\<close> refuses \<^verbatim>\<open>sec1\<close>; searched below the open note
  \<^verbatim>\<open>docs1\<close>, the same request gets the share id and the title of \<^verbatim>\<open>sec1\<close> back among the
  results. The result mapping does not call \<^verbatim>\<open>checkNoteAccess\<close> on the note of a result.
\<close>

theorem search_returns_unchecked_note:
  "shareSearch ex_b64 ''root'' (ex_find [ex_sr_secret]) ex_shaca
      \<lparr> authorization = None, query_ancestorNoteId = QString ''docs1'',
        query_search = QString ''pay'' \<rparr> newResponse
     = Inr \<lparr> out_res = json (JsonResults
                 [\<lparr> r_id = ''payroll'', r_title = ''Payroll'', r_score = 10,
                    r_path = ''Payroll'' \<rparr>]) newResponse,
             out_searches =
               [(''pay'', SearchContext_new ''root'' (emptyParams\<lparr> p_ancestorNoteId := Some ''docs1'' \<rparr>))] \<rparr>
   \<and> shaca_notes ex_shaca ''sec1'' = Some ex_secret
   \<and> getCredentials ex_secret = [''alice:pw'']
   \<and> checkNoteAccess ex_b64 ex_shaca ''sec1''
        \<lparr> authorization = None, query_ancestorNoteId = QString ''docs1'',
          query_search = QString ''pay'' \<rparr> (newResponse :: nat Response)
       = (None, newResponse)"
  by (simp add: shareSearch_def checkNoteAccess_def mapResult_def ex_defs Let_def slice_def
      trim_defs)

text \<open>
  C2, on the note \<^verbatim>\<open>sec1\<close>, which asks for the credentials \<^verbatim>\<open>alice:pw\<close>. A search below
  it with no \<^verbatim>\<open>Authorization\<close> header, and one with the wrong password, both end with the
  response untouched: nothing is sent, the status is still 200, there is no
  \<^verbatim>\<open>WWW-Authenticate\<close> header, and no search has run. The 401 with that header is what
  \<^verbatim>\<open>requestCredentials\<close> produces, which the handler does not call. With the exact
  credentials the check grants access.
\<close>

theorem search_denied_sends_nothing:
  "shareSearch ex_b64 ''root'' (ex_find [ex_sr_secret]) ex_shaca
      \<lparr> authorization = None, query_ancestorNoteId = QString ''sec1'',
        query_search = QString ''pay'' \<rparr> newResponse
     = Inr \<lparr> out_res = newResponse, out_searches = [] \<rparr>
   \<and> shareSearch ex_b64 ''root'' (ex_find [ex_sr_secret]) ex_shaca
      \<lparr> authorization = Some ''Basic YWxpY2U6d3Jvbmc='', query_ancestorNoteId = QString ''sec1'',
        query_search = QString ''pay'' \<rparr> newResponse
     = Inr \<lparr> out_res = newResponse, out_searches = [] \<rparr>
   \<and> checkNoteAccess ex_b64 ex_shaca ''sec1''
      \<lparr> authorization = Some ''Basic YWxpY2U6cHc='', query_ancestorNoteId = QString ''sec1'',
        query_search = QString ''pay'' \<rparr> (newResponse :: nat Response)
     = (Some ex_secret, newResponse)
   \<and> sent (newResponse :: nat Response) = None
   \<and> statusCode (newResponse :: nat Response) = 200
   \<and> headers (newResponse :: nat Response) ''WWW-Authenticate'' = None
   \<and> statusCode (requestCredentials (newResponse :: nat Response)) = 401
   \<and> sent (requestCredentials (newResponse :: nat Response)) = Some (StatusText 401)
   \<and> headers (requestCredentials (newResponse :: nat Response)) ''WWW-Authenticate'' \<noteq> None"
  by (simp add: shareSearch_def checkNoteAccess_def ex_defs newResponse_def Let_def
      startsWith_def substring_def safeCompare_def requestCredentials_def sendStatus_def
      setHeader_def)

text \<open>
  C6, as the code has it, on a fresh response. The ancestor of a request is its
  \<^verbatim>\<open>ancestorNoteId\<close> when that is a string, and \<^verbatim>\<open>"_share"\<close> when it is missing. The answer
  is 400 with a JSON message when \<^verbatim>\<open>ancestorNoteId\<close> is present but not a string, and
  when the ancestor passes the access check and \<^verbatim>\<open>search\<close> is missing, not a string, or
  white space only. These are the only 400 answers, each has a message body, and no
  search has run in any of them. The middleware router does the same.
\<close>

theorem search_bad_request:
  fixes res0 :: "'s Response"
  assumes fresh: "res0 = newResponse"
  shows
    "(query_ancestorNoteId req = QOther \<longrightarrow>
        shareSearch b64 hoisted findRes sh req res0 =
          Inr \<lparr> out_res = json (JsonMessage
                     ([CHR 0x27] @ ''ancestorNoteId'' @ [CHR 0x27] @ '' parameter is mandatory.''))
                     (status 400 res0),
                out_searches = [] \<rparr>)
   \<and> (\<forall>anc note. ancestorOf req = Some anc
          \<and> checkNoteAccess b64 sh anc req res0 = (Some note, res0)
          \<and> searchMissing req
        \<longrightarrow> shareSearch b64 hoisted findRes sh req res0 =
          Inr \<lparr> out_res = json (JsonMessage
                     ([CHR 0x27] @ ''search'' @ [CHR 0x27] @ '' parameter is mandatory.''))
                     (status 400 res0),
                out_searches = [] \<rparr>)
   \<and> (\<forall>out. shareSearch b64 hoisted findRes sh req res0 = Inr out
          \<and> statusCode (out_res out) = 400
        \<longrightarrow> out_searches out = []
          \<and> (\<exists>m. sent (out_res out) = Some (JsonMessage m))
          \<and> (query_ancestorNoteId req = QOther
              \<or> (\<exists>anc note. ancestorOf req = Some anc
                    \<and> checkNoteAccess b64 sh anc req res0 = (Some note, res0)
                    \<and> searchMissing req)))
   \<and> (searchMissing req \<longleftrightarrow>
        query_search req = QUndefined \<or> query_search req = QOther
        \<or> (\<exists>s. query_search req = QString s \<and> whiteSpaceOnly s))
   \<and> (ancestorOf req =
        (case query_ancestorNoteId req of
           QUndefined \<Rightarrow> Some ''_share'' | QString a \<Rightarrow> Some a | QOther \<Rightarrow> None))
   \<and> shareSearch_mw b64 hoisted findRes sh req res0 = shareSearch b64 hoisted findRes sh req res0"
proof -
  have p1: "query_ancestorNoteId req = QOther \<longrightarrow>
        shareSearch b64 hoisted findRes sh req res0 =
          Inr \<lparr> out_res = json (JsonMessage
                     ([CHR 0x27] @ ''ancestorNoteId'' @ [CHR 0x27] @ '' parameter is mandatory.''))
                     (status 400 res0),
                out_searches = [] \<rparr>"
    by (simp add: shareSearch_not_string ancestorOf_None)
  have p2: "\<forall>anc note. ancestorOf req = Some anc
          \<and> checkNoteAccess b64 sh anc req res0 = (Some note, res0)
          \<and> searchMissing req
        \<longrightarrow> shareSearch b64 hoisted findRes sh req res0 =
          Inr \<lparr> out_res = json (JsonMessage
                     ([CHR 0x27] @ ''search'' @ [CHR 0x27] @ '' parameter is mandatory.''))
                     (status 400 res0),
                out_searches = [] \<rparr>"
    by (auto simp: shareSearch_blank)
  have p3: "\<forall>out. shareSearch b64 hoisted findRes sh req res0 = Inr out
          \<and> statusCode (out_res out) = 400
        \<longrightarrow> out_searches out = []
          \<and> (\<exists>m. sent (out_res out) = Some (JsonMessage m))
          \<and> (query_ancestorNoteId req = QOther
              \<or> (\<exists>anc note. ancestorOf req = Some anc
                    \<and> checkNoteAccess b64 sh anc req res0 = (Some note, res0)
                    \<and> searchMissing req))"
  proof (intro allI impI)
    fix out
    assume h: "shareSearch b64 hoisted findRes sh req res0 = Inr out
          \<and> statusCode (out_res out) = 400"
    show "out_searches out = []
          \<and> (\<exists>m. sent (out_res out) = Some (JsonMessage m))
          \<and> (query_ancestorNoteId req = QOther
              \<or> (\<exists>anc note. ancestorOf req = Some anc
                    \<and> checkNoteAccess b64 sh anc req res0 = (Some note, res0)
                    \<and> searchMissing req))"
    proof (cases rule: shareSearch_cases [where req = req and ?b64.0 = b64 and sh = sh and res = res0])
      case not_string
      with h show ?thesis
        by (auto simp: shareSearch_not_string ancestorOf_None json_def)
    next
      case (denied anc res1)
      with h have "out_res out = res1" by (auto simp: shareSearch_denied)
      with checkNoteAccess_None [OF denied(2)] h fresh show ?thesis
        by (auto simp: newResponse_def)
    next
      case (blank anc nt)
      with h show ?thesis
        by (auto simp: shareSearch_blank json_def)
    next
      case (run anc nt search)
      from shareSearch_run [OF run, of hoisted findRes] h fresh show ?thesis
        by (auto simp: json_def newResponse_def split: sum.splits)
    qed
  qed
  have p4: "shareSearch_mw b64 hoisted findRes sh req res0 = shareSearch b64 hoisted findRes sh req res0"
    by (rule shareSearch_mw_eq)
  have p5: "searchMissing req \<longleftrightarrow>
        query_search req = QUndefined \<or> query_search req = QOther
        \<or> (\<exists>s. query_search req = QString s \<and> whiteSpaceOnly s)"
    by (rule searchMissing_iff)
  have p6: "ancestorOf req =
        (case query_ancestorNoteId req of
           QUndefined \<Rightarrow> Some ''_share'' | QString a \<Rightarrow> Some a | QOther \<Rightarrow> None)"
    by (rule ancestorOf_def)
  show ?thesis
    by (rule conjI [OF p1 conjI [OF p2 conjI [OF p3 conjI [OF p5 conjI [OF p6 p4]]]]])
qed

text \<open>
  A request with an array for \<^verbatim>\<open>ancestorNoteId\<close>, and one whose \<^verbatim>\<open>search\<close> is a space and
  an em space (U+2003).
\<close>

theorem search_bad_request_witness:
  "query_ancestorNoteId \<lparr> authorization = None, query_ancestorNoteId = QOther,
        query_search = QString ''pay'' \<rparr> = QOther
   \<and> shareSearch ex_b64 ''root'' (ex_find [ex_sr_secret]) ex_shaca
        \<lparr> authorization = None, query_ancestorNoteId = QOther,
          query_search = QString ''pay'' \<rparr> newResponse
       = Inr \<lparr> out_res = json (JsonMessage
                   ([CHR 0x27] @ ''ancestorNoteId'' @ [CHR 0x27] @ '' parameter is mandatory.''))
                   (status 400 newResponse),
               out_searches = [] \<rparr>
   \<and> ancestorOf \<lparr> authorization = None, query_ancestorNoteId = QString ''docs1'',
          query_search = QString [CHR 0x20, CHR 0xE2, CHR 0x80, CHR 0x83] \<rparr> = Some ''docs1''
   \<and> checkNoteAccess ex_b64 ex_shaca ''docs1''
        \<lparr> authorization = None, query_ancestorNoteId = QString ''docs1'',
          query_search = QString [CHR 0x20, CHR 0xE2, CHR 0x80, CHR 0x83] \<rparr> (newResponse :: nat Response)
       = (Some ex_docs, newResponse)
   \<and> searchMissing \<lparr> authorization = None, query_ancestorNoteId = QString ''docs1'',
          query_search = QString [CHR 0x20, CHR 0xE2, CHR 0x80, CHR 0x83] \<rparr>
   \<and> shareSearch ex_b64 ''root'' (ex_find [ex_sr_secret]) ex_shaca
        \<lparr> authorization = None, query_ancestorNoteId = QString ''docs1'',
          query_search = QString [CHR 0x20, CHR 0xE2, CHR 0x80, CHR 0x83] \<rparr> newResponse
       = Inr \<lparr> out_res = json (JsonMessage
                   ([CHR 0x27] @ ''search'' @ [CHR 0x27] @ '' parameter is mandatory.''))
                   (status 400 newResponse),
               out_searches = [] \<rparr>
   \<and> whiteSpaceOnly [CHR 0x20, CHR 0xE2, CHR 0x80, CHR 0x83]"
proof -
  let ?r1 = "\<lparr> authorization = None, query_ancestorNoteId = QOther,
          query_search = QString ''pay'' \<rparr>"
  let ?r2 = "\<lparr> authorization = None, query_ancestorNoteId = QString ''docs1'',
          query_search = QString [CHR 0x20, CHR 0xE2, CHR 0x80, CHR 0x83] \<rparr>"
  have o: "query_ancestorNoteId ?r1 = QOther" by simp
  have a: "ancestorOf ?r2 = Some ''docs1''" by (simp add: ancestorOf_def)
  have c: "checkNoteAccess ex_b64 ex_shaca ''docs1'' ?r2 (newResponse :: nat Response)
       = (Some ex_docs, newResponse)"
    by (simp add: checkNoteAccess_def ex_defs)
  have m: "searchMissing ?r2"
    by (simp add: searchMissing_def trim_defs)
  from search_bad_request [OF refl, of ?r1 ex_b64 "''root''" "ex_find [ex_sr_secret]" ex_shaca] o
  have one: "shareSearch ex_b64 ''root'' (ex_find [ex_sr_secret]) ex_shaca ?r1 newResponse
       = Inr \<lparr> out_res = json (JsonMessage
                   ([CHR 0x27] @ ''ancestorNoteId'' @ [CHR 0x27] @ '' parameter is mandatory.''))
                   (status 400 newResponse),
               out_searches = [] \<rparr>"
    by simp
  from search_bad_request [OF refl, of ?r2 ex_b64 "''root''" "ex_find [ex_sr_secret]" ex_shaca] a c m
  have two: "shareSearch ex_b64 ''root'' (ex_find [ex_sr_secret]) ex_shaca ?r2 newResponse
       = Inr \<lparr> out_res = json (JsonMessage
                   ([CHR 0x27] @ ''search'' @ [CHR 0x27] @ '' parameter is mandatory.''))
                   (status 400 newResponse),
               out_searches = [] \<rparr>"
    by simp
  from search_bad_request [OF refl, of ?r2 ex_b64 "''root''" "ex_find [ex_sr_secret]" ex_shaca] m
  have three: "whiteSpaceOnly [CHR 0x20, CHR 0xE2, CHR 0x80, CHR 0x83]"
    by simp
  from o a c m one two three show ?thesis by simp
qed

text \<open>
  C6 as stated fails. With \<^verbatim>\<open>ancestorNoteId\<close> missing the search runs below \<^verbatim>\<open>"_share"\<close> and
  is answered with status 200; with an empty \<^verbatim>\<open>ancestorNoteId\<close> the answer is 404; and
  with \<^verbatim>\<open>search\<close> missing too, on a cache without the share index note, it is 404.
\<close>

theorem search_absent_ancestor_counterexample:
  "shareSearch ex_b64 ''root'' (ex_find [ex_sr_secret]) ex_shaca
      \<lparr> authorization = None, query_ancestorNoteId = QUndefined,
        query_search = QString ''pay'' \<rparr> newResponse
     = Inr \<lparr> out_res = \<lparr> statusCode = 200, headers = Map.empty,
                 sent = Some (JsonResults
                   [\<lparr> r_id = ''payroll'', r_title = ''Payroll'', r_score = 10,
                      r_path = ''Docs / Payroll'' \<rparr>]) \<rparr>,
             out_searches =
               [(''pay'', SearchContext_new ''root'' (emptyParams\<lparr> p_ancestorNoteId := Some ''_share'' \<rparr>))] \<rparr>
   \<and> shareSearch ex_b64 ''root'' (ex_find [ex_sr_secret]) ex_shaca
      \<lparr> authorization = None, query_ancestorNoteId = QString [],
        query_search = QString ''pay'' \<rparr> newResponse
     = Inr \<lparr> out_res = \<lparr> statusCode = 404, headers = Map.empty,
                 sent = Some (JsonMessage (''Note '' @ [CHR 0x27] @ [CHR 0x27] @ '' not found.'')) \<rparr>,
             out_searches = [] \<rparr>
   \<and> shareSearch ex_b64 ''root'' (ex_find [ex_sr_secret]) ex_shaca_bare
      \<lparr> authorization = None, query_ancestorNoteId = QUndefined,
        query_search = QUndefined \<rparr> newResponse
     = Inr \<lparr> out_res = \<lparr> statusCode = 404, headers = Map.empty,
                 sent = Some (JsonMessage (''Note '' @ [CHR 0x27] @ ''_share'' @ [CHR 0x27] @ '' not found.'')) \<rparr>,
             out_searches = [] \<rparr>"
  by (simp add: shareSearch_def checkNoteAccess_def mapResult_def ex_defs Let_def slice_def
      trim_defs newResponse_def json_def status_def)

text \<open>
  C7, as the code has it, on a fresh response and with \<^verbatim>\<open>ancestorNoteId\<close> omitted.
  Where the cache has no \<^verbatim>\<open>"_share"\<close> note the answer is 404, whatever the index switch.
  Where it has one, the answer is 403 exactly when the share index is disabled; when
  it is enabled the request goes on to the credential check of \<^verbatim>\<open>"_share"\<close> and, once
  that passes with a usable \<^verbatim>\<open>search\<close>, to the search. Every search the handler runs is
  rooted at \<^verbatim>\<open>"_share"\<close>.
\<close>

theorem search_share_index:
  fixes res0 :: "'s Response"
  assumes fresh: "res0 = newResponse"
    and omitted: "query_ancestorNoteId req = QUndefined"
  shows
    "(getNote sh ''_share'' = None \<longrightarrow>
        shareSearch b64 hoisted findRes sh req res0 =
          Inr \<lparr> out_res = json (JsonMessage
                     (''Note '' @ [CHR 0x27] @ ''_share'' @ [CHR 0x27] @ '' not found.''))
                     (status 404 res0),
                out_searches = [] \<rparr>)
   \<and> (getNote sh ''_share'' \<noteq> None \<and> \<not> shareIndexEnabled sh \<longrightarrow>
        shareSearch b64 hoisted findRes sh req res0 =
          Inr \<lparr> out_res = json (JsonMessage ''Accessing share index is forbidden.'')
                     (status 403 res0),
                out_searches = [] \<rparr>)
   \<and> (getNote sh ''_share'' \<noteq> None \<longrightarrow>
        ((\<exists>out. shareSearch b64 hoisted findRes sh req res0 = Inr out
               \<and> statusCode (out_res out) = 403)
         \<longleftrightarrow> \<not> shareIndexEnabled sh))
   \<and> (\<forall>nt. getNote sh ''_share'' = Some nt \<and> shareIndexEnabled sh \<longrightarrow>
        checkNoteAccess b64 sh ''_share'' req res0
          = (if granted b64 nt req then Some nt else None, res0))
   \<and> (\<forall>nt search. getNote sh ''_share'' = Some nt \<and> shareIndexEnabled sh
          \<and> granted b64 nt req \<and> query_search req = QString search \<and> trim search \<noteq> [] \<longrightarrow>
        shareSearch b64 hoisted findRes sh req res0 =
          (case mapE (mapResult sh ''_share'')
                  (findRes search
                     (SearchContext_new hoisted (emptyParams\<lparr> p_ancestorNoteId := Some ''_share'' \<rparr>))) of
             Inl e \<Rightarrow> Inl e
           | Inr rs \<Rightarrow>
               Inr \<lparr> out_res = json (JsonResults rs) res0,
                     out_searches =
                       [(search, SearchContext_new hoisted
                                   (emptyParams\<lparr> p_ancestorNoteId := Some ''_share'' \<rparr>))] \<rparr>))
   \<and> (\<forall>out. shareSearch b64 hoisted findRes sh req res0 = Inr out \<longrightarrow>
        (\<forall>qc \<in> set (out_searches out). ancestorNoteId (snd qc) = Some ''_share''))"
proof -
  from omitted have a: "ancestorOf req = Some ''_share''"
    by (simp add: ancestorOf_def)
  have p1: "getNote sh ''_share'' = None \<longrightarrow>
        shareSearch b64 hoisted findRes sh req res0 =
          Inr \<lparr> out_res = json (JsonMessage
                     (''Note '' @ [CHR 0x27] @ ''_share'' @ [CHR 0x27] @ '' not found.''))
                     (status 404 res0),
                out_searches = [] \<rparr>"
    by (auto simp: shareSearch_denied [OF a] checkNoteAccess_eq)
  have p2: "getNote sh ''_share'' \<noteq> None \<and> \<not> shareIndexEnabled sh \<longrightarrow>
        shareSearch b64 hoisted findRes sh req res0 =
          Inr \<lparr> out_res = json (JsonMessage ''Accessing share index is forbidden.'')
                     (status 403 res0),
                out_searches = [] \<rparr>"
    by (auto simp: shareSearch_denied [OF a] checkNoteAccess_eq)
  have p4: "\<forall>nt. getNote sh ''_share'' = Some nt \<and> shareIndexEnabled sh \<longrightarrow>
        checkNoteAccess b64 sh ''_share'' req res0
          = (if granted b64 nt req then Some nt else None, res0)"
    by (simp add: checkNoteAccess_eq)
  have p5: "\<forall>nt search. getNote sh ''_share'' = Some nt \<and> shareIndexEnabled sh
          \<and> granted b64 nt req \<and> query_search req = QString search \<and> trim search \<noteq> [] \<longrightarrow>
        shareSearch b64 hoisted findRes sh req res0 =
          (case mapE (mapResult sh ''_share'')
                  (findRes search
                     (SearchContext_new hoisted (emptyParams\<lparr> p_ancestorNoteId := Some ''_share'' \<rparr>))) of
             Inl e \<Rightarrow> Inl e
           | Inr rs \<Rightarrow>
               Inr \<lparr> out_res = json (JsonResults rs) res0,
                     out_searches =
                       [(search, SearchContext_new hoisted
                                   (emptyParams\<lparr> p_ancestorNoteId := Some ''_share'' \<rparr>))] \<rparr>)"
  proof (intro allI impI)
    fix nt search
    assume h: "getNote sh ''_share'' = Some nt \<and> shareIndexEnabled sh
          \<and> granted b64 nt req \<and> query_search req = QString search \<and> trim search \<noteq> []"
    then have c: "checkNoteAccess b64 sh ''_share'' req res0 = (Some nt, res0)"
      by (simp add: checkNoteAccess_eq)
    from h show "shareSearch b64 hoisted findRes sh req res0 =
          (case mapE (mapResult sh ''_share'')
                  (findRes search
                     (SearchContext_new hoisted (emptyParams\<lparr> p_ancestorNoteId := Some ''_share'' \<rparr>))) of
             Inl e \<Rightarrow> Inl e
           | Inr rs \<Rightarrow>
               Inr \<lparr> out_res = json (JsonResults rs) res0,
                     out_searches =
                       [(search, SearchContext_new hoisted
                                   (emptyParams\<lparr> p_ancestorNoteId := Some ''_share'' \<rparr>))] \<rparr>)"
      by (simp add: shareSearch_run [OF a c])
  qed
  have ctx: "ancestorNoteId (SearchContext_new hoisted (emptyParams\<lparr> p_ancestorNoteId := Some ''_share'' \<rparr>))
      = Some ''_share''"
    by (simp add: SearchContext_new_def Let_def truthy_str_def)
  have shape: "\<And>out. shareSearch b64 hoisted findRes sh req res0 = Inr out \<Longrightarrow>
      (statusCode (out_res out) = 403 \<longrightarrow> getNote sh ''_share'' \<noteq> None \<longrightarrow> \<not> shareIndexEnabled sh)
      \<and> (\<forall>qc \<in> set (out_searches out). ancestorNoteId (snd qc) = Some ''_share'')"
  proof -
    fix out
    assume r: "shareSearch b64 hoisted findRes sh req res0 = Inr out"
    show "(statusCode (out_res out) = 403 \<longrightarrow> getNote sh ''_share'' \<noteq> None \<longrightarrow> \<not> shareIndexEnabled sh)
      \<and> (\<forall>qc \<in> set (out_searches out). ancestorNoteId (snd qc) = Some ''_share'')"
    proof (cases rule: shareSearch_cases [where req = req and ?b64.0 = b64 and sh = sh and res = res0])
      case not_string
      with a show ?thesis by simp
    next
      case (denied anc res1)
      with a have c: "checkNoteAccess b64 sh ''_share'' req res0 = (None, res1)" by simp
      from shareSearch_denied [OF a c, of hoisted findRes] r
      have o: "out = \<lparr> out_res = res1, out_searches = [] \<rparr>" by simp
      from c fresh have "statusCode res1 = 403 \<longrightarrow> getNote sh ''_share'' \<noteq> None \<longrightarrow> \<not> shareIndexEnabled sh"
        by (auto simp: checkNoteAccess_eq newResponse_def split: option.splits if_splits)
      with o show ?thesis by simp
    next
      case (blank anc nt)
      with a have c: "checkNoteAccess b64 sh ''_share'' req res0 = (Some nt, res0)" by simp
      from shareSearch_blank [OF a c blank(3), of hoisted findRes] r show ?thesis
        by (auto simp: json_def status_def)
    next
      case (run anc nt search)
      with a have c: "checkNoteAccess b64 sh ''_share'' req res0 = (Some nt, res0)" by simp
      from shareSearch_run [OF a c run(3) run(4), of hoisted findRes] r fresh ctx show ?thesis
        by (auto simp: json_def newResponse_def split: sum.splits)
    qed
  qed
  have p6: "\<forall>out. shareSearch b64 hoisted findRes sh req res0 = Inr out \<longrightarrow>
        (\<forall>qc \<in> set (out_searches out). ancestorNoteId (snd qc) = Some ''_share'')"
    using shape by blast
  have p3: "getNote sh ''_share'' \<noteq> None \<longrightarrow>
        ((\<exists>out. shareSearch b64 hoisted findRes sh req res0 = Inr out
               \<and> statusCode (out_res out) = 403)
         \<longleftrightarrow> \<not> shareIndexEnabled sh)"
  proof (intro impI iffI)
    assume "getNote sh ''_share'' \<noteq> None"
      and "\<exists>out. shareSearch b64 hoisted findRes sh req res0 = Inr out \<and> statusCode (out_res out) = 403"
    with shape show "\<not> shareIndexEnabled sh" by blast
  next
    assume "getNote sh ''_share'' \<noteq> None" and "\<not> shareIndexEnabled sh"
    with p2 show "\<exists>out. shareSearch b64 hoisted findRes sh req res0 = Inr out \<and> statusCode (out_res out) = 403"
      by (simp add: json_def status_def)
  qed
  show ?thesis
    by (rule conjI [OF p1 conjI [OF p2 conjI [OF p3 conjI [OF p4 conjI [OF p5 p6]]]]])
qed

text \<open>
  The omitted ancestor on the sample cache, on the same cache with the index switched
  off, and on the cache without the share index note.
\<close>

theorem search_share_index_witness:
  "query_ancestorNoteId \<lparr> authorization = None, query_ancestorNoteId = QUndefined,
        query_search = QString ''pay'' \<rparr> = QUndefined
   \<and> getNote ex_shaca ''_share'' = Some ex_index \<and> shareIndexEnabled ex_shaca
   \<and> granted ex_b64 ex_index \<lparr> authorization = None, query_ancestorNoteId = QUndefined,
        query_search = QString ''pay'' \<rparr>
   \<and> shareSearch ex_b64 ''root'' (ex_find [ex_sr_secret]) ex_shaca
      \<lparr> authorization = None, query_ancestorNoteId = QUndefined,
        query_search = QString ''pay'' \<rparr> newResponse
     = Inr \<lparr> out_res = json (JsonResults
                   [\<lparr> r_id = ''payroll'', r_title = ''Payroll'', r_score = 10,
                      r_path = ''Docs / Payroll'' \<rparr>]) newResponse,
             out_searches =
               [(''pay'', SearchContext_new ''root'' (emptyParams\<lparr> p_ancestorNoteId := Some ''_share'' \<rparr>))] \<rparr>
   \<and> getNote (ex_shaca\<lparr> shareIndexEnabled := False \<rparr>) ''_share'' \<noteq> None
   \<and> \<not> shareIndexEnabled (ex_shaca\<lparr> shareIndexEnabled := False \<rparr>)
   \<and> shareSearch ex_b64 ''root'' (ex_find [ex_sr_secret]) (ex_shaca\<lparr> shareIndexEnabled := False \<rparr>)
      \<lparr> authorization = None, query_ancestorNoteId = QUndefined,
        query_search = QString ''pay'' \<rparr> newResponse
     = Inr \<lparr> out_res = json (JsonMessage ''Accessing share index is forbidden.'')
                   (status 403 newResponse),
             out_searches = [] \<rparr>
   \<and> getNote ex_shaca_bare ''_share'' = None
   \<and> shareSearch ex_b64 ''root'' (ex_find [ex_sr_secret]) ex_shaca_bare
      \<lparr> authorization = None, query_ancestorNoteId = QUndefined,
        query_search = QString ''pay'' \<rparr> newResponse
     = Inr \<lparr> out_res = json (JsonMessage
                   (''Note '' @ [CHR 0x27] @ ''_share'' @ [CHR 0x27] @ '' not found.''))
                   (status 404 newResponse),
             out_searches = [] \<rparr>"
proof -
  let ?req = "\<lparr> authorization = None, query_ancestorNoteId = QUndefined,
        query_search = QString ''pay'' \<rparr>"
  have o: "query_ancestorNoteId ?req = QUndefined" by simp
  have g: "getNote ex_shaca ''_share'' = Some ex_index" and e: "shareIndexEnabled ex_shaca"
    by (simp_all add: ex_defs)
  have gr: "granted ex_b64 ex_index ?req" by (simp add: granted_def ex_defs)
  have s: "query_search ?req = QString ''pay''" and t: "trim ''pay'' \<noteq> []"
    by (simp_all add: trim_defs)
  have m: "mapE (mapResult ex_shaca ''_share'') (ex_find [ex_sr_secret] ''pay''
            (SearchContext_new ''root'' (emptyParams\<lparr> p_ancestorNoteId := Some ''_share'' \<rparr>)))
          = Inr [\<lparr> r_id = ''payroll'', r_title = ''Payroll'', r_score = 10,
                      r_path = ''Docs / Payroll'' \<rparr>]"
    by (simp add: mapResult_def ex_defs Let_def slice_def)
  have g2: "getNote (ex_shaca\<lparr> shareIndexEnabled := False \<rparr>) ''_share'' \<noteq> None"
    and e2: "\<not> shareIndexEnabled (ex_shaca\<lparr> shareIndexEnabled := False \<rparr>)"
    by (simp_all add: ex_defs)
  have g3: "getNote ex_shaca_bare ''_share'' = None" by (simp add: ex_defs)
  from search_share_index [OF refl o, of ex_shaca ex_b64 "''root''" "ex_find [ex_sr_secret]"] g e gr s t m
  have one: "shareSearch ex_b64 ''root'' (ex_find [ex_sr_secret]) ex_shaca ?req newResponse
     = Inr \<lparr> out_res = json (JsonResults
                   [\<lparr> r_id = ''payroll'', r_title = ''Payroll'', r_score = 10,
                      r_path = ''Docs / Payroll'' \<rparr>]) newResponse,
             out_searches =
               [(''pay'', SearchContext_new ''root'' (emptyParams\<lparr> p_ancestorNoteId := Some ''_share'' \<rparr>))] \<rparr>"
    by simp
  from search_share_index [OF refl o, of "ex_shaca\<lparr> shareIndexEnabled := False \<rparr>" ex_b64 "''root''" "ex_find [ex_sr_secret]"] g2 e2
  have two: "shareSearch ex_b64 ''root'' (ex_find [ex_sr_secret]) (ex_shaca\<lparr> shareIndexEnabled := False \<rparr>) ?req newResponse
     = Inr \<lparr> out_res = json (JsonMessage ''Accessing share index is forbidden.'')
                   (status 403 newResponse),
             out_searches = [] \<rparr>"
    by blast
  from search_share_index [OF refl o, of ex_shaca_bare ex_b64 "''root''" "ex_find [ex_sr_secret]"] g3
  have three: "shareSearch ex_b64 ''root'' (ex_find [ex_sr_secret]) ex_shaca_bare ?req newResponse
     = Inr \<lparr> out_res = json (JsonMessage
                   (''Note '' @ [CHR 0x27] @ ''_share'' @ [CHR 0x27] @ '' not found.''))
                   (status 404 newResponse),
             out_searches = [] \<rparr>"
    by blast
  from o g e gr g2 e2 g3 one two three show ?thesis by simp
qed

text \<open>
  C7 as stated fails on a cache without the \<^verbatim>\<open>"_share"\<close> note: the share index is
  disabled, and the answer is 404, not 403.
\<close>

theorem search_share_index_missing_counterexample:
  "query_ancestorNoteId \<lparr> authorization = None, query_ancestorNoteId = QUndefined,
        query_search = QString ''pay'' \<rparr> = QUndefined
   \<and> \<not> shareIndexEnabled ex_shaca_bare
   \<and> shareSearch ex_b64 ''root'' (ex_find [ex_sr_secret]) ex_shaca_bare
      \<lparr> authorization = None, query_ancestorNoteId = QUndefined,
        query_search = QString ''pay'' \<rparr> newResponse
     = Inr \<lparr> out_res = \<lparr> statusCode = 404, headers = Map.empty,
                 sent = Some (JsonMessage (''Note '' @ [CHR 0x27] @ ''_share'' @ [CHR 0x27] @ '' not found.'')) \<rparr>,
             out_searches = [] \<rparr>"
  by (simp add: shareSearch_def checkNoteAccess_def ex_defs newResponse_def json_def status_def)

text \<open>
  C8. Whenever the handler answers with a list of results, the list matches the results
  of the search, one entry each and in order. An entry carries the \<open>shareId\<close> of the
  result's note in the share cache as its id (with the note's title and the result's
  score), and for a result whose note path holds the request's ancestor its path is the
  breadcrumb of the specification: the titles of the ids strictly after the position of
  the ancestor, cached ids only, joined with \<^verbatim>\<open>" / "\<close>.
\<close>

theorem search_result_entries:
  fixes out :: "'s Outcome"
  assumes run: "shareSearch b64 hoisted findRes sh req newResponse = Inr out"
    and body: "sent (out_res out) = Some (JsonResults rs)"
  shows "\<exists>anc search.
           ancestorOf req = Some anc \<and> query_search req = QString search
         \<and> list_all2 (\<lambda>sr r. \<exists>n. shaca_notes sh (sr_noteId sr) = Some n
                         \<and> r_id r = shareId n \<and> r_title r = title n \<and> r_score r = sr_score sr
                         \<and> (\<forall>after. spec_pathAfterAncestor anc (sr_notePathArray sr) = Some after
                               \<longrightarrow> r_path r = spec_resultPath sh after))
             (findRes search
                (SearchContext_new hoisted (emptyParams\<lparr> p_ancestorNoteId := Some anc \<rparr>))) rs"
proof -
  from shareSearch_results_inv [OF run body]
  obtain anc search where a: "ancestorOf req = Some anc"
    and s: "query_search req = QString search"
    and m: "mapE (mapResult sh anc)
              (findRes search (SearchContext_new hoisted (emptyParams\<lparr> p_ancestorNoteId := Some anc \<rparr>)))
             = Inr rs"
    by blast
  from m have "list_all2 (\<lambda>sr r. mapResult sh anc sr = Inr r)
     (findRes search (SearchContext_new hoisted (emptyParams\<lparr> p_ancestorNoteId := Some anc \<rparr>))) rs"
    by (simp add: mapE_Inr_iff)
  then have "list_all2 (\<lambda>sr r. \<exists>n. shaca_notes sh (sr_noteId sr) = Some n
                         \<and> r_id r = shareId n \<and> r_title r = title n \<and> r_score r = sr_score sr
                         \<and> (\<forall>after. spec_pathAfterAncestor anc (sr_notePathArray sr) = Some after
                               \<longrightarrow> r_path r = spec_resultPath sh after))
     (findRes search (SearchContext_new hoisted (emptyParams\<lparr> p_ancestorNoteId := Some anc \<rparr>))) rs"
  proof (rule list_all2_mono)
    fix sr :: "'s SearchResult" and r :: "'s ShareResult"
    assume e: "mapResult sh anc sr = Inr r"
    then obtain n where n: "shaca_notes sh (sr_noteId sr) = Some n"
      by (auto simp: mapResult_eq split: option.splits)
    from mapResult_path [OF n, of anc] e
    have "r = \<lparr> r_id = shareId n, r_title = title n, r_score = sr_score sr,
          r_path = join '' / ''
            (cachedTitles sh
               (if anc \<in> set (sr_notePathArray sr)
                then tl (dropWhile (\<lambda>i. i \<noteq> anc) (sr_notePathArray sr))
                else sr_notePathArray sr)) \<rparr>"
      by simp
    with n show "\<exists>n. shaca_notes sh (sr_noteId sr) = Some n
                         \<and> r_id r = shareId n \<and> r_title r = title n \<and> r_score r = sr_score sr
                         \<and> (\<forall>after. spec_pathAfterAncestor anc (sr_notePathArray sr) = Some after
                               \<longrightarrow> r_path r = spec_resultPath sh after)"
      by (auto simp: spec_pathAfterAncestor_def spec_resultPath_def split: if_splits)
  qed
  with a s show ?thesis by blast
qed

text \<open>
  A search below the share index with two results, one of them reached through a note
  that the share cache does not hold.
\<close>

theorem search_result_entries_witness:
  "shareSearch ex_b64 ''root'' (ex_find [ex_sr_secret, ex_sr_deep]) ex_shaca
      \<lparr> authorization = None, query_ancestorNoteId = QUndefined,
        query_search = QString ''pay'' \<rparr> newResponse
     = Inr \<lparr> out_res = json (JsonResults
                 [\<lparr> r_id = ''payroll'', r_title = ''Payroll'', r_score = 10,
                    r_path = ''Docs / Payroll'' \<rparr>,
                  \<lparr> r_id = ''payroll'', r_title = ''Payroll'', r_score = 4,
                    r_path = ''Docs / Payroll'' \<rparr>]) newResponse,
             out_searches =
               [(''pay'', SearchContext_new ''root'' (emptyParams\<lparr> p_ancestorNoteId := Some ''_share'' \<rparr>))] \<rparr>
   \<and> shaca_notes ex_shaca (sr_noteId ex_sr_deep) = Some ex_secret
   \<and> shareId ex_secret = ''payroll''
   \<and> spec_pathAfterAncestor ''_share'' (sr_notePathArray ex_sr_deep)
       = Some [''docs1'', ''tmp7'', ''sec1'']
   \<and> spec_resultPath ex_shaca [''docs1'', ''tmp7'', ''sec1''] = ''Docs / Payroll''
   \<and> list_all2 (\<lambda>sr r. \<exists>n. shaca_notes ex_shaca (sr_noteId sr) = Some n
                         \<and> r_id r = shareId n \<and> r_title r = title n \<and> r_score r = sr_score sr
                         \<and> (\<forall>after. spec_pathAfterAncestor ''_share'' (sr_notePathArray sr) = Some after
                               \<longrightarrow> r_path r = spec_resultPath ex_shaca after))
        [ex_sr_secret, ex_sr_deep]
        [\<lparr> r_id = ''payroll'', r_title = ''Payroll'', r_score = 10, r_path = ''Docs / Payroll'' \<rparr>,
         \<lparr> r_id = ''payroll'', r_title = ''Payroll'', r_score = 4, r_path = ''Docs / Payroll'' \<rparr>]"
proof -
  let ?req = "\<lparr> authorization = None, query_ancestorNoteId = QUndefined,
        query_search = QString ''pay'' \<rparr>"
  let ?rs = "[\<lparr> r_id = ''payroll'', r_title = ''Payroll'', r_score = 10 :: nat,
                    r_path = ''Docs / Payroll'' \<rparr>,
                  \<lparr> r_id = ''payroll'', r_title = ''Payroll'', r_score = 4,
                    r_path = ''Docs / Payroll'' \<rparr>]"
  let ?out = "\<lparr> out_res = json (JsonResults ?rs) newResponse,
             out_searches =
               [(''pay'', SearchContext_new ''root'' (emptyParams\<lparr> p_ancestorNoteId := Some ''_share'' \<rparr>))] \<rparr>"
  have run: "shareSearch ex_b64 ''root'' (ex_find [ex_sr_secret, ex_sr_deep]) ex_shaca ?req newResponse
      = Inr ?out"
    by (simp add: shareSearch_def checkNoteAccess_def mapResult_def ex_defs Let_def slice_def
        trim_defs)
  have body: "sent (out_res ?out) = Some (JsonResults ?rs)"
    by (simp add: json_def)
  have a: "ancestorOf ?req = Some ''_share''" by (simp add: ancestorOf_def)
  have f: "\<And>q c. ex_find [ex_sr_secret, ex_sr_deep] q c = [ex_sr_secret, ex_sr_deep]"
    by (simp add: ex_find_def)
  from search_result_entries [OF run body] a f
  have entries: "list_all2 (\<lambda>sr r. \<exists>n. shaca_notes ex_shaca (sr_noteId sr) = Some n
                         \<and> r_id r = shareId n \<and> r_title r = title n \<and> r_score r = sr_score sr
                         \<and> (\<forall>after. spec_pathAfterAncestor ''_share'' (sr_notePathArray sr) = Some after
                               \<longrightarrow> r_path r = spec_resultPath ex_shaca after))
        [ex_sr_secret, ex_sr_deep] ?rs"
    by auto
  have n: "shaca_notes ex_shaca (sr_noteId ex_sr_deep) = Some ex_secret"
    and i: "shareId ex_secret = ''payroll''"
    and p: "spec_pathAfterAncestor ''_share'' (sr_notePathArray ex_sr_deep)
       = Some [''docs1'', ''tmp7'', ''sec1'']"
    and t: "spec_resultPath ex_shaca [''docs1'', ''tmp7'', ''sec1''] = ''Docs / Payroll''"
    by (simp_all add: ex_defs spec_pathAfterAncestor_def spec_resultPath_def cachedTitles_def)
  from run entries n i p t show ?thesis by (intro conjI)
qed

text \<open>
  C9. The access checks of the two routers agree: for every note id, share cache,
  request and response, \<^verbatim>\<open>checkNoteAccess\<close> of the middleware router returns the same
  decision (the note, or \<^verbatim>\<open>false\<close>) and leaves the same response, status and body
  included, as \<^verbatim>\<open>checkNoteAccess\<close> of the per-route router.
\<close>

theorem checkNoteAccess_variants_agree:
  "checkNoteAccess_mw b64 sh nId req res = checkNoteAccess b64 sh nId req res"
  unfolding checkNoteAccess_mw_def checkNoteAccess_def ..

end
